theory Spec2Isabelle
  imports Complex_Main "HOL-Library.Sublist" "HOL-Library.Char_ord" "HOL-Library.List_Lexorder"
begin

section \<open>Failures\<close>

text \<open>
  Every exception class thrown in the analysed sources is a constructor carrying the
  message; a failed \<open>assert\<close>, a failed \<open>boost::lexical_cast\<close> and the use of
  an iterator that points to no entry are failures of their own. A function that can fail returns \<open>error + 'a\<close>, with \<open>Inl\<close> the
  failure.
\<close>

datatype error =
    ValidationError string
  | LogicError string
  | InvalidArgument string
  | IOError string
  | bad_lexical_cast
  | AssertionFailure string
  | invalid_iterator

section \<open>Fault tree analysis results (fault\_tree\_analysis.cc)\<close>

subsection \<open>Literals and products\<close>

text \<open>
  A \<open>Literal\<close> is a basic event together with its complement flag; a \<open>Product\<close>
  is iterated as a sequence of literals. The event class is declared outside the
  analysed sources, so the event type is a parameter \<open>'e\<close> and the probability of an
  event, \<open>literal.event.p()\<close>, is the parameter \<open>p\<close> of the functions below.
  The C++ \<open>double\<close> is not read as a real number: the arithmetic of the machine
  rounds, so the values are of any type \<open>'d\<close> that has a 1, a multiplication and a
  subtraction, and nothing is assumed of these operations.
\<close>

record 'e Literal =
  complement :: bool
  event :: 'e

type_synonym 'e Product = "'e Literal list"

type_synonym 'e ProductContainer = "'e Product list"

text \<open>
  \<open>Product::p\<close>: the accumulator starts at 1 and is multiplied, literal by literal,
  by \<open>1 - event.p()\<close> for a complemented literal and by \<open>event.p()\<close> otherwise.
\<close>

fun Product_p_loop ::
  "('e \<Rightarrow> 'd) \<Rightarrow> 'd \<Rightarrow> 'e Product \<Rightarrow> 'd::{one,times,minus}" where
  "Product_p_loop p acc [] = acc"
| "Product_p_loop p acc (literal # rest) =
     Product_p_loop p
       (acc * (if complement literal then 1 - p (event literal) else p (event literal))) rest"

definition Product_p :: "('e \<Rightarrow> 'd) \<Rightarrow> 'e Product \<Rightarrow> 'd::{one,times,minus}" where
  "Product_p p product = Product_p_loop p 1 product"

subsection \<open>Storing the products of an analysis\<close>

text \<open>
  Modelled from the spec: the classes \<open>Settings\<close>, \<open>Analysis\<close>, \<open>Zbdd\<close> and
  \<open>ProductContainer\<close> are declared outside the analysed sources. Of the settings only
  \<open>limit_order\<close> (a natural number) and the debugging switch \<open>print\<close> are read here.
  An analysis records its warnings in order (\<open>AddWarning\<close>). A \<open>Zbdd\<close> stands for
  the set of products it encodes: it is \<open>empty\<close> when it encodes no product (NULL) and
  \<open>base\<close> when it encodes exactly the empty product (UNITY). The
  \<open>ProductContainer\<close> built from a \<open>Zbdd\<close> iterates over these products.
\<close>

record Settings =
  limit_order :: nat
  print :: bool

type_synonym 'e Zbdd = "'e Product list"

definition Zbdd_empty :: "'e Zbdd \<Rightarrow> bool" where
  "Zbdd_empty zbdd = (zbdd = [])"

definition Zbdd_base :: "'e Zbdd \<Rightarrow> bool" where
  "Zbdd_base zbdd = (zbdd = [[]])"

record 'e FaultTreeAnalysis =
  settings :: Settings
  warnings :: "string list"
  products :: "'e ProductContainer option"

definition AddWarning :: "string \<Rightarrow> 'e FaultTreeAnalysis \<Rightarrow> 'e FaultTreeAnalysis" where
  "AddWarning msg fta = fta\<lparr>warnings := warnings fta @ [msg]\<rparr>"

definition ProductContainer :: "'e Zbdd \<Rightarrow> 'g \<Rightarrow> 'e ProductContainer" where
  "ProductContainer zbdd graph = zbdd"

text \<open>
  \<open>Print\<close> writes to the standard error stream only; what is kept of it is which of
  its assertions can abort the program. After the two early returns, the products are
  sorted by size, so the front of the sorted sequence is empty exactly when some
  product has no literal.
\<close>

definition Print :: "'e ProductContainer \<Rightarrow> error + unit" where
  "Print container =
     (if container = [] then Inr ()
      else if hd container = [] then
        (if length container = 1 then Inr ()
         else Inl (AssertionFailure ''Unity case must have only one product.''))
      else if list_ex (\<lambda>product. product = []) container then
        Inl (AssertionFailure ''Failure of the analysis with Unity!'')
      else Inr ())"

text \<open>
  \<open>FaultTreeAnalysis::Store\<close>. The flag \<open>ndebug\<close> says whether the program was
  compiled with \<open>NDEBUG\<close>: only without it are the order of every product asserted
  and, if the settings ask for it, the products printed.
\<close>

definition Store ::
  "bool \<Rightarrow> 'e Zbdd \<Rightarrow> 'g \<Rightarrow> 'e FaultTreeAnalysis \<Rightarrow> error + 'e FaultTreeAnalysis" where
  "Store ndebug zbdd graph fta =
     (let fta1 =
            (if Zbdd_empty zbdd then
               AddWarning ''The top event is NULL. Success is guaranteed.'' fta
             else if Zbdd_base zbdd then
               AddWarning ''The top event is UNITY. Failure is guaranteed.'' fta
             else fta);
          container = ProductContainer zbdd graph;
          fta2 = fta1\<lparr>products := Some container\<rparr>
      in if ndebug then Inr fta2
         else if list_ex (\<lambda>product. \<not> length product \<le> limit_order (settings fta2)) container
           then Inl (AssertionFailure
                  ''Miscalculated product sets with larger-than-required order.'')
         else if print (settings fta2) then
           (case Print container of Inl e \<Rightarrow> Inl e | Inr u \<Rightarrow> Inr fta2)
         else Inr fta2)"

subsection \<open>The engine producing the products\<close>

text \<open>
  Modelled from the spec: the engine that computes the minimal products (the \<open>Zbdd\<close>
  handed to \<open>Store\<close>) is not among the analysed sources. The definitions follow the
  specification of the engine: a bottom-up propagation over the normalized graph of
  literals, disjunctions and conjunctions. A literal yields the one product holding it;
  a disjunction the union of the product sets of its children; a conjunction the
  pairwise combination of the products of its children (the union of their literals),
  where a product holding a literal and its complement, or more than \<open>L\<close> literals, is
  discarded. After each combination the products with a strict subset in the set are
  removed.
\<close>

datatype 'e node =
    Lit "'e Literal"
  | OR "'e node list"
  | AND "'e node list"

definition complementary :: "'e Product \<Rightarrow> bool" where
  "complementary product =
     list_ex (\<lambda>l. list_ex (\<lambda>m. event m = event l \<and> complement m \<noteq> complement l) product)
       product"

definition minimalize :: "'e Product list \<Rightarrow> 'e Product list" where
  "minimalize ps = filter (\<lambda>p. \<not> list_ex (\<lambda>q. set q \<subset> set p) ps) ps"

definition union_products :: "'e Product list \<Rightarrow> 'e Product list \<Rightarrow> 'e Product list" where
  "union_products ps qs = minimalize (List.union ps qs)"

definition combine_products ::
  "nat \<Rightarrow> 'e Product list \<Rightarrow> 'e Product list \<Rightarrow> 'e Product list" where
  "combine_products L ps qs =
     minimalize
       (filter (\<lambda>p. length p \<le> L)
          (filter (\<lambda>p. \<not> complementary p)
             (remdups (concat (map (\<lambda>p. map (\<lambda>q. List.union p q) qs) ps)))))"

fun products_of :: "nat \<Rightarrow> 'e node \<Rightarrow> 'e Product list" where
  "products_of L (Lit l) = [[l]]"
| "products_of L (OR cs) = fold (\<lambda>c acc. union_products acc (products_of L c)) cs []"
| "products_of L (AND cs) = fold (\<lambda>c acc. combine_products L acc (products_of L c)) cs [[]]"

text \<open>
  Two shapes of a product set used below: the empty product, when present, is the only
  product; and a set is well formed for the order limit \<open>L\<close> when no product has more
  than \<open>L\<close> literals, no product is listed twice and the empty product stands alone.
\<close>

definition unity_alone :: "'e Product list \<Rightarrow> bool" where
  "unity_alone ps = (if [] \<in> set ps then ps = [[]] else True)"

definition well_formed :: "nat \<Rightarrow> 'e Product list \<Rightarrow> bool" where
  "well_formed L ps = (list_all (\<lambda>p. length p \<le> L) ps \<and> distinct ps \<and> unity_alone ps)"

section \<open>The mission time (parameter.h)\<close>

datatype Units =
    kUnitless | kBool | kInt | kFloat | kHours
  | kInverseHours | kYears | kInverseYears | kFit | kDemands

text \<open>
  The state of a \<open>MissionTime\<close> object is its two data members. The four member
  functions defined in the class body are embedded as they are written; none of them
  assigns to a member.
\<close>

record MissionTime =
  time_unit :: Units
  time_value :: real

definition MissionTime_Min :: "MissionTime \<Rightarrow> real" where
  "MissionTime_Min mt = 0"

definition MissionTime_Mean :: "MissionTime \<Rightarrow> real" where
  "MissionTime_Mean mt = time_value mt"

definition MissionTime_IsDeviate :: "MissionTime \<Rightarrow> bool" where
  "MissionTime_IsDeviate mt = False"

definition MissionTime_DoSample :: "MissionTime \<Rightarrow> real" where
  "MissionTime_DoSample mt = time_value mt"

text \<open>
  Modelled from the spec: the constructor and the setter \<open>value(double)\<close> are only
  declared in the header; by their documentation they throw \<open>LogicError\<close> for a
  negative time and otherwise store the time. The public \<open>Sample()\<close> belongs to the
  base class \<open>Expression\<close>, which is not among the analysed sources: it yields the
  sample drawn by the node's own \<open>DoSample()\<close> and is given here with the object it
  leaves behind.
\<close>

definition MissionTime_init :: "real \<Rightarrow> Units \<Rightarrow> error + MissionTime" where
  "MissionTime_init time unit =
     (if time < 0 then Inl (LogicError ''Mission time cannot be negative.'')
      else Inr \<lparr>time_unit = unit, time_value = time\<rparr>)"

definition MissionTime_value :: "real \<Rightarrow> MissionTime \<Rightarrow> error + MissionTime" where
  "MissionTime_value time mt =
     (if time < 0 then Inl (LogicError ''Mission time cannot be negative.'')
      else Inr (mt\<lparr>time_value := time\<rparr>))"

definition MissionTime_Sample :: "MissionTime \<Rightarrow> real \<times> MissionTime" where
  "MissionTime_Sample mt = (MissionTime_DoSample mt, mt)"

section \<open>Building and validating the model (risk\_analysis.cc)\<close>

subsection \<open>Strings\<close>

text \<open>
  \<open>boost::to_lower\<close> and \<open>boost::to_upper\<close> change the case of the ASCII letters and
  leave every other character; \<open>boost::trim\<close> removes the white space at both ends.
  Numbers are written to a stream in decimal.
\<close>

definition to_lower_char :: "char \<Rightarrow> char" where
  "to_lower_char c =
     (case map_of (zip ''ABCDEFGHIJKLMNOPQRSTUVWXYZ'' ''abcdefghijklmnopqrstuvwxyz'') c of
        Some l \<Rightarrow> l | None \<Rightarrow> c)"

definition to_upper_char :: "char \<Rightarrow> char" where
  "to_upper_char c =
     (case map_of (zip ''abcdefghijklmnopqrstuvwxyz'' ''ABCDEFGHIJKLMNOPQRSTUVWXYZ'') c of
        Some u \<Rightarrow> u | None \<Rightarrow> c)"

definition to_lower :: "string \<Rightarrow> string" where
  "to_lower s = map to_lower_char s"

definition to_upper :: "string \<Rightarrow> string" where
  "to_upper s = map to_upper_char s"

definition isspace :: "char \<Rightarrow> bool" where
  "isspace c = (c \<in> set [CHR '' '', CHR 0x09, CHR 0x0A, CHR 0x0B, CHR 0x0C, CHR 0x0D])"

definition trim :: "string \<Rightarrow> string" where
  "trim s = rev (dropWhile isspace (rev (dropWhile isspace s)))"

definition endl :: string where
  "endl = [CHR 0x0A]"

definition digit :: "nat \<Rightarrow> char" where
  "digit n = ''0123456789'' ! (n mod 10)"

function decimal :: "nat \<Rightarrow> string" where
  "decimal n = (if n div 10 = 0 then [digit n] else decimal (n div 10) @ [digit n])"
  by pat_completeness auto
termination
  by (relation "measure (\<lambda>n. n)") auto

declare decimal.simps [simp del]

definition decimal_int :: "int \<Rightarrow> string" where
  "decimal_int i = (if 0 \<le> i then decimal (nat i) else CHR ''-'' # decimal (nat (- i)))"

subsection \<open>The parsed input\<close>

text \<open>
  The input files are read, parsed and validated against the schema by the XML
  library; the builder sees element nodes. An element has a name, the line it starts
  at, its attributes, the content of its text child if it has one, and its child
  elements in document order. Reading an attribute that is absent gives the empty
  string. The conversions of attribute text to numbers (\<open>boost::lexical_cast\<close>) are
  parameters of the builder: \<open>None\<close> stands for the exception \<open>bad_lexical_cast\<close>.
\<close>

datatype xml =
  Element (get_name: string) (get_line: nat) (get_attributes: "(string \<times> string) list")
    (get_child_text: "string option") (get_children: "xml list")

definition get_attribute_value :: "xml \<Rightarrow> string \<Rightarrow> string" where
  "get_attribute_value node attr =
     (case map_of (get_attributes node) attr of Some v \<Rightarrow> v | None \<Rightarrow> [])"

definition find_named :: "xml \<Rightarrow> string \<Rightarrow> xml list" where
  "find_named node n = filter (\<lambda>c. get_name c = n) (get_children node)"

definition find_content :: "xml \<Rightarrow> xml list" where
  "find_content node =
     filter (\<lambda>c. get_name c \<noteq> ''attributes'' \<and> get_name c \<noteq> ''label'') (get_children node)"

record lexical_cast =
  lexical_cast_int :: "string \<Rightarrow> int option"
  lexical_cast_double :: "string \<Rightarrow> real option"

definition Line :: "xml \<Rightarrow> string \<Rightarrow> string" where
  "Line node msg = ''Line '' @ decimal (get_line node) @ '':'' @ endl @ msg"

subsection \<open>Failing computations on a state\<close>

text \<open>
  A member function of \<open>RiskAnalysis\<close> runs on the state of the object and either
  returns or throws; in both cases it leaves a state behind.
\<close>

type_synonym ('s, 'a) action = "'s \<Rightarrow> (error + 'a) \<times> 's"

definition return :: "'a \<Rightarrow> ('s, 'a) action" where
  "return x s = (Inr x, s)"

definition throw :: "error \<Rightarrow> ('s, 'a) action" where
  "throw e s = (Inl e, s)"

definition bind :: "('s, 'a) action \<Rightarrow> ('a \<Rightarrow> ('s, 'b) action) \<Rightarrow> ('s, 'b) action" where
  "bind m f s = (case m s of (Inl e, s') \<Rightarrow> (Inl e, s') | (Inr x, s') \<Rightarrow> f x s')"

definition seq :: "('s, unit) action \<Rightarrow> ('s, 'b) action \<Rightarrow> ('s, 'b) action" where
  "seq m n = bind m (\<lambda>u. n)"

definition get :: "('s, 's) action" where
  "get s = (Inr s, s)"

definition modify :: "('s \<Rightarrow> 's) \<Rightarrow> ('s, unit) action" where
  "modify f s = (Inr (), f s)"

definition assert :: "bool \<Rightarrow> string \<Rightarrow> ('s, unit) action" where
  "assert b expr = (if b then return () else throw (AssertionFailure expr))"

text \<open>A loop over a sequence that stops at the first exception.\<close>

primrec for_each :: "'a list \<Rightarrow> ('a \<Rightarrow> ('s, unit) action) \<Rightarrow> ('s, unit) action" where
  "for_each [] body = return ()"
| "for_each (x # xs) body = seq (body x) (for_each xs body)"

subsection \<open>Associative containers\<close>

text \<open>
  A \<open>std::map\<close> or \<open>boost::unordered_map\<close> is the sequence of its entries, with at
  most one entry for a key. \<open>insert\<close> leaves the container as it is when the key is
  present. The order of iteration of an unordered map is not specified; the entries
  are kept in the order of insertion.
\<close>

type_synonym ('k, 'v) table = "('k \<times> 'v) list"

definition map_count :: "('k, 'v) table \<Rightarrow> 'k \<Rightarrow> bool" where
  "map_count m k = (map_of m k \<noteq> None)"

definition map_insert :: "'k \<times> 'v \<Rightarrow> ('k, 'v) table \<Rightarrow> ('k, 'v) table" where
  "map_insert kv m = (if map_count m (fst kv) then m else m @ [kv])"

definition map_erase :: "'k \<Rightarrow> ('k, 'v) table \<Rightarrow> ('k, 'v) table" where
  "map_erase k m = filter (\<lambda>kv. fst kv \<noteq> k) m"

subsection \<open>The objects of the model\<close>

text \<open>
  Modelled from the spec: the classes \<open>Element\<close>, \<open>Event\<close>, \<open>Gate\<close>,
  \<open>BasicEvent\<close>, \<open>HouseEvent\<close>, \<open>Parameter\<close>, \<open>FaultTree\<close>, \<open>CcfGroup\<close> and the
  expression classes are declared outside the analysed sources. An object is the
  record of the members that the builder and the validation read or write; a setter
  assigns its member, \<open>AddAttribute\<close> appends the attribute, \<open>HasAttribute\<close> and
  \<open>GetAttribute\<close> look an attribute up by its name, \<open>AddChild\<close> and \<open>AddParent\<close>
  insert into the map of children or parents under the id of the child or parent.

  Events are shared between the tables of the analysis, the children of gates and
  the parents of events, so they live in a store and are referred to by address.
  Expressions are the terms of their constructors; a parameter is a shared cell and an
  expression refers to it by address.
\<close>

type_synonym addr = nat

record Attribute =
  attr_name :: string
  attr_value :: string
  attr_type :: string

record Element =
  label :: string
  attributes :: "Attribute list"

definition HasAttribute :: "'a Element_scheme \<Rightarrow> string \<Rightarrow> bool" where
  "HasAttribute element n = list_ex (\<lambda>a. attr_name a = n) (attributes element)"

definition GetAttribute :: "'a Element_scheme \<Rightarrow> string \<Rightarrow> Attribute option" where
  "GetAttribute element n = List.find (\<lambda>a. attr_name a = n) (attributes element)"

datatype Expression =
    ConstantExpression_double real
  | ConstantExpression_bool bool
  | ParameterPtr addr
  | MissionTimePtr
  | UniformDeviate Expression Expression
  | NormalDeviate Expression Expression
  | LogNormalDeviate Expression Expression Expression
  | GammaDeviate Expression Expression
  | BetaDeviate Expression Expression
  | Histogram "Expression list" "Expression list"
  | ExponentialExpression Expression Expression
  | GlmExpression Expression Expression Expression Expression
  | WeibullExpression Expression Expression Expression Expression

datatype EventClass = GateClass | BasicEventClass | HouseEventClass

record Event = Element +
  dynamic_class :: EventClass
  event_id :: string
  orig_id :: string
  parents :: "(string, addr) table"
  gate_type :: string
  vote_number :: int
  children :: "(string, addr) table"
  expression :: "Expression option"
  house_state :: bool

definition new_Event :: "EventClass \<Rightarrow> string \<Rightarrow> string \<Rightarrow> Event" where
  "new_Event c i orig =
     \<lparr>label = [], attributes = [], dynamic_class = c, event_id = i, orig_id = orig,
      parents = [], gate_type = [], vote_number = - 1, children = [],
      expression = None, house_state = False\<rparr>"

record Parameter = Element +
  param_name :: string
  param_unit :: Units
  param_expression :: "Expression option"

definition new_Parameter :: "string \<Rightarrow> Parameter" where
  "new_Parameter n =
     \<lparr>label = [], attributes = [], param_name = n, param_unit = kUnitless,
      param_expression = None\<rparr>"

record FaultTree = Element +
  ft_name :: string
  ft_gates :: "addr list"

record CcfGroup = Element +
  ccf_name :: string
  ccf_model :: string
  members :: "addr list"
  distribution :: "Expression option"
  factors :: "(Expression \<times> int) list"

subsection \<open>The state of a risk analysis\<close>

text \<open>
  The data members of \<open>RiskAnalysis\<close> that the builder and the first layer of the
  validation use, with the store of events, the store of parameters and the next free
  address. The tables of valid gate types and units filled by the constructor never
  change and are constants.
\<close>

record RiskAnalysis =
  prob_requested :: bool
  gates :: "(string, addr) table"
  tbd_gates :: "(string, addr) table"
  primary_events :: "(string, addr) table"
  basic_events :: "(string, addr) table"
  tbd_basic_events :: "(string, addr) table"
  tbd_house_events :: "(string, addr) table"
  tbd_events :: "(string, addr list) table"
  tbd_orig_ids :: "(string, string) table"
  parameters :: "(string, addr) table"
  tbd_parameters :: "(string, addr) table"
  fault_trees :: "(string, FaultTree) table"
  ccf_groups :: "(string, CcfGroup) table"
  expressions :: "Expression list"
  orphan_primary_events :: "addr list"
  mission_time :: MissionTime
  settings_mission_time :: real
  events_store :: "addr \<Rightarrow> Event option"
  parameters_store :: "addr \<Rightarrow> Parameter option"
  next_addr :: addr

definition gate_types :: "string list" where
  "gate_types =
     [''and'', ''or'', ''not'', ''nor'', ''nand'', ''xor'', ''null'', ''inhibit'', ''atleast'']"

definition units :: "(string, Units) table" where
  "units =
     [(''bool'', kBool), (''int'', kInt), (''float'', kFloat), (''hours'', kHours),
      (''hours-1'', kInverseHours), (''years'', kYears), (''years-1'', kInverseYears),
      (''fit'', kFit), (''demands'', kDemands)]"

definition RiskAnalysis_init :: RiskAnalysis where
  "RiskAnalysis_init =
     \<lparr>prob_requested = False, gates = [], tbd_gates = [], primary_events = [],
      basic_events = [], tbd_basic_events = [], tbd_house_events = [], tbd_events = [],
      tbd_orig_ids = [], parameters = [], tbd_parameters = [], fault_trees = [],
      ccf_groups = [], expressions = [], orphan_primary_events = [],
      mission_time = \<lparr>time_unit = kHours, time_value = 0\<rparr>, settings_mission_time = 0,
      events_store = (\<lambda>a. None), parameters_store = (\<lambda>a. None), next_addr = 0\<rparr>"

type_synonym 'a builder = "(RiskAnalysis, 'a) action"

definition new_event :: "Event \<Rightarrow> addr builder" where
  "new_event obj s =
     (Inr (next_addr s),
      s\<lparr>events_store := (events_store s)(next_addr s \<mapsto> obj), next_addr := Suc (next_addr s)\<rparr>)"

definition new_parameter :: "Parameter \<Rightarrow> addr builder" where
  "new_parameter obj s =
     (Inr (next_addr s),
      s\<lparr>parameters_store := (parameters_store s)(next_addr s \<mapsto> obj),
        next_addr := Suc (next_addr s)\<rparr>)"

definition update_event :: "addr \<Rightarrow> (Event \<Rightarrow> Event) \<Rightarrow> RiskAnalysis \<Rightarrow> RiskAnalysis" where
  "update_event a f s =
     (case events_store s a of
        Some obj \<Rightarrow> s\<lparr>events_store := (events_store s)(a \<mapsto> f obj)\<rparr>
      | None \<Rightarrow> s)"

definition update_parameter ::
  "addr \<Rightarrow> (Parameter \<Rightarrow> Parameter) \<Rightarrow> RiskAnalysis \<Rightarrow> RiskAnalysis" where
  "update_parameter a f s =
     (case parameters_store s a of
        Some obj \<Rightarrow> s\<lparr>parameters_store := (parameters_store s)(a \<mapsto> f obj)\<rparr>
      | None \<Rightarrow> s)"

definition id_of :: "RiskAnalysis \<Rightarrow> addr \<Rightarrow> string" where
  "id_of s a = (case events_store s a of Some obj \<Rightarrow> event_id obj | None \<Rightarrow> [])"

definition orig_id_of :: "RiskAnalysis \<Rightarrow> addr \<Rightarrow> string" where
  "orig_id_of s a = (case events_store s a of Some obj \<Rightarrow> orig_id obj | None \<Rightarrow> [])"

text \<open>\<open>parent->AddChild(child); child->AddParent(parent);\<close>\<close>

definition AddChild :: "addr \<Rightarrow> addr \<Rightarrow> RiskAnalysis \<Rightarrow> RiskAnalysis" where
  "AddChild parent child s =
     update_event parent (\<lambda>g. g\<lparr>children := map_insert (id_of s child, child) (children g)\<rparr>) s"

definition AddParent :: "addr \<Rightarrow> addr \<Rightarrow> RiskAnalysis \<Rightarrow> RiskAnalysis" where
  "AddParent child parent s =
     update_event child (\<lambda>e. e\<lparr>parents := map_insert (id_of s parent, parent) (parents e)\<rparr>) s"

definition map_adjust :: "'k \<Rightarrow> ('v \<Rightarrow> 'v) \<Rightarrow> ('k, 'v) table \<Rightarrow> ('k, 'v) table" where
  "map_adjust k f m = map (\<lambda>kv. if fst kv = k then (fst kv, f (snd kv)) else kv) m"

definition class_of :: "RiskAnalysis \<Rightarrow> addr \<Rightarrow> EventClass option" where
  "class_of s a = map_option dynamic_class (events_store s a)"

subsection \<open>Labels and attributes\<close>

text \<open>
  \<open>AttachLabelAndAttributes\<close> works on the \<open>Element\<close> part of any object; an
  assertion that fails ends the program.
\<close>

definition AttachLabelAndAttributes :: "xml \<Rightarrow> 'a Element_scheme \<Rightarrow> error + 'a Element_scheme" where
  "AttachLabelAndAttributes element_node element =
     (case (case find_named element_node ''label'' of
              [] \<Rightarrow> Inr element
            | [label_node] \<Rightarrow>
                (case get_child_text label_node of
                   None \<Rightarrow> Inl (AssertionFailure ''text'')
                 | Some content \<Rightarrow> Inr (element\<lparr>label := content\<rparr>))
            | _ \<Rightarrow> Inl (AssertionFailure ''labels.size() == 1'')) of
        Inl e \<Rightarrow> Inl e
      | Inr element1 \<Rightarrow>
          (case find_named element_node ''attributes'' of
             [] \<Rightarrow> Inr element1
           | [attributes_element] \<Rightarrow>
               Inr (element1\<lparr>attributes := attributes element1 @
                      map (\<lambda>attribute.
                             \<lparr>attr_name = get_attribute_value attribute ''name'',
                              attr_value = get_attribute_value attribute ''value'',
                              attr_type = get_attribute_value attribute ''type''\<rparr>)
                        (find_named attributes_element ''attribute'')\<rparr>)
           | _ \<Rightarrow> Inl (AssertionFailure ''attributes.size() == 1'')))"

definition attach_event :: "xml \<Rightarrow> addr \<Rightarrow> unit builder" where
  "attach_event element_node a s =
     (case events_store s a of
        None \<Rightarrow> (Inr (), s)
      | Some obj \<Rightarrow>
          (case AttachLabelAndAttributes element_node obj of
             Inl e \<Rightarrow> (Inl e, s)
           | Inr obj' \<Rightarrow> (Inr (), s\<lparr>events_store := (events_store s)(a \<mapsto> obj')\<rparr>)))"

definition attach_parameter :: "xml \<Rightarrow> addr \<Rightarrow> unit builder" where
  "attach_parameter element_node a s =
     (case parameters_store s a of
        None \<Rightarrow> (Inr (), s)
      | Some obj \<Rightarrow>
          (case AttachLabelAndAttributes element_node obj of
             Inl e \<Rightarrow> (Inl e, s)
           | Inr obj' \<Rightarrow> (Inr (), s\<lparr>parameters_store := (parameters_store s)(a \<mapsto> obj')\<rparr>)))"

definition attach_fault_tree :: "xml \<Rightarrow> string \<Rightarrow> unit builder" where
  "attach_fault_tree element_node k s =
     (case map_of (fault_trees s) k of
        None \<Rightarrow> (Inr (), s)
      | Some obj \<Rightarrow>
          (case AttachLabelAndAttributes element_node obj of
             Inl e \<Rightarrow> (Inl e, s)
           | Inr obj' \<Rightarrow> (Inr (), s\<lparr>fault_trees := map_adjust k (\<lambda>t. obj') (fault_trees s)\<rparr>)))"

definition attach_ccf_group :: "xml \<Rightarrow> string \<Rightarrow> unit builder" where
  "attach_ccf_group element_node k s =
     (case map_of (ccf_groups s) k of
        None \<Rightarrow> (Inr (), s)
      | Some obj \<Rightarrow>
          (case AttachLabelAndAttributes element_node obj of
             Inl e \<Rightarrow> (Inl e, s)
           | Inr obj' \<Rightarrow> (Inr (), s\<lparr>ccf_groups := map_adjust k (\<lambda>t. obj') (ccf_groups s)\<rparr>)))"

subsection \<open>Forward references\<close>

text \<open>
  \<open>UpdateIfLateEvent\<close>: an event that gates asked for before its kind was known is
  attached to each of these gates, and the request is erased.
\<close>

definition UpdateIfLateEvent :: "addr \<Rightarrow> bool builder" where
  "UpdateIfLateEvent ev s =
     (let i = id_of s ev in
      case map_of (tbd_events s) i of
        Some late_parents \<Rightarrow>
          (Inr True,
           (fold (\<lambda>parent s'. AddParent ev parent (AddChild parent ev s')) late_parents s)
             \<lparr>tbd_events := map_erase i (tbd_events s),
              tbd_orig_ids := map_erase i (tbd_orig_ids s)\<rparr>)
      | None \<Rightarrow> (Inr False, s))"

text \<open>
  The four cases of a child in a formula. \<open>ProcessFormulaEvent\<close> returns \<open>None\<close>
  where the source returns false (the kind of the child is not known yet) and the
  child otherwise; the others return the child.
\<close>

definition ProcessFormulaEvent :: "addr \<Rightarrow> string \<Rightarrow> string \<Rightarrow> (addr option) builder" where
  "ProcessFormulaEvent gate i orig s =
     (if map_count (primary_events s) i then (Inr (map_of (primary_events s) i), s)
      else if map_count (gates s) i then (Inr (map_of (gates s) i), s)
      else if map_count (tbd_gates s) i then (Inr (map_of (tbd_gates s) i), s)
      else if map_count (tbd_basic_events s) i then (Inr (map_of (tbd_basic_events s) i), s)
      else if map_count (tbd_house_events s) i then (Inr (map_of (tbd_house_events s) i), s)
      else
        (Inr None,
         if map_count (tbd_events s) i then
           s\<lparr>tbd_events := map_adjust i (\<lambda>ps. ps @ [gate]) (tbd_events s)\<rparr>
         else
           s\<lparr>tbd_events := map_insert (i, [gate]) (tbd_events s),
             tbd_orig_ids := map_insert (i, orig) (tbd_orig_ids s)\<rparr>))"

definition ProcessFormulaBasicEvent :: "xml \<Rightarrow> addr \<Rightarrow> string \<Rightarrow> string \<Rightarrow> addr builder" where
  "ProcessFormulaBasicEvent event_node gate i orig =
     bind get (\<lambda>s.
       if map_count (gates s) i \<or> map_count (tbd_gates s) i then
         throw (ValidationError
           (Line event_node (''The id '' @ orig @ '' is already assigned to a gate.'')))
       else if map_count (tbd_house_events s) i then
         throw (ValidationError
           (Line event_node (''The id '' @ orig @ '' is already used by a house event.'')))
       else
         case map_of (primary_events s) i of
           Some child \<Rightarrow>
             if class_of s child \<noteq> Some BasicEventClass then
               throw (ValidationError
                 (Line event_node (''The id '' @ orig @ '' is already assigned to a house event.'')))
             else return child
         | None \<Rightarrow>
             (case map_of (tbd_basic_events s) i of
                Some child \<Rightarrow> return child
              | None \<Rightarrow>
                  bind (new_event (new_Event BasicEventClass i orig)) (\<lambda>child.
                  seq (modify (\<lambda>s. s\<lparr>tbd_basic_events :=
                                       map_insert (i, child) (tbd_basic_events s)\<rparr>))
                  (bind (UpdateIfLateEvent child) (\<lambda>late. return child)))))"

definition ProcessFormulaHouseEvent :: "xml \<Rightarrow> addr \<Rightarrow> string \<Rightarrow> string \<Rightarrow> addr builder" where
  "ProcessFormulaHouseEvent event_node gate i orig =
     bind get (\<lambda>s.
       if map_count (gates s) i \<or> map_count (tbd_gates s) i then
         throw (ValidationError
           (Line event_node (''The id '' @ orig @ '' is already assigned to a gate.'')))
       else if map_count (tbd_basic_events s) i then
         throw (ValidationError
           (Line event_node (''The id '' @ orig @ '' is already used by a basic event.'')))
       else
         case map_of (primary_events s) i of
           Some child \<Rightarrow>
             if class_of s child \<noteq> Some HouseEventClass then
               throw (ValidationError
                 (Line event_node (''The id '' @ orig @ '' is already assigned to a basic event.'')))
             else return child
         | None \<Rightarrow>
             (case map_of (tbd_house_events s) i of
                Some child \<Rightarrow> return child
              | None \<Rightarrow>
                  bind (new_event (new_Event HouseEventClass i orig)) (\<lambda>child.
                  seq (modify (\<lambda>s. s\<lparr>tbd_house_events :=
                                       map_insert (i, child) (tbd_house_events s)\<rparr>))
                  (bind (UpdateIfLateEvent child) (\<lambda>late. return child)))))"

definition ProcessFormulaGate :: "xml \<Rightarrow> addr \<Rightarrow> string \<Rightarrow> string \<Rightarrow> addr builder" where
  "ProcessFormulaGate event_node gate i orig =
     bind get (\<lambda>s.
       if map_count (primary_events s) i \<or> map_count (tbd_basic_events s) i
          \<or> map_count (tbd_house_events s) i then
         throw (ValidationError
           (Line event_node (''The id '' @ orig @ '' is already assigned to a primary event.'')))
       else
         case map_of (gates s) i of
           Some child \<Rightarrow> return child
         | None \<Rightarrow>
             (case map_of (tbd_gates s) i of
                Some child \<Rightarrow> return child
              | None \<Rightarrow>
                  bind (new_event (new_Event GateClass i orig)) (\<lambda>child.
                  seq (modify (\<lambda>s. s\<lparr>tbd_gates := map_insert (i, child) (tbd_gates s)\<rparr>))
                  (bind (UpdateIfLateEvent child) (\<lambda>late. return child)))))"

text \<open>
  \<open>ProcessFormula\<close>: the loop over the children of a formula, with the set
  \<open>children_id\<close> of the ids met so far. After the two assertions the name of the kind
  is one of the four that the loop dispatches on.
\<close>

definition ProcessFormula_child :: "addr \<Rightarrow> xml \<Rightarrow> string \<Rightarrow> string \<Rightarrow> unit builder" where
  "ProcessFormula_child gate event_node i orig =
     (let name0 = get_name event_node;
          type = trim (get_attribute_value event_node ''type'');
          name = (if type \<noteq> [] then type else name0)
      in seq (assert (name0 \<in> set [''event'', ''gate'', ''basic-event'', ''house-event''])
                ''name == event || name == gate || name == basic-event || name == house-event'')
        (seq (assert (type = [] \<or> type \<in> set [''gate'', ''basic-event'', ''house-event''])
                ''type == gate || type == basic-event || type == house-event'')
        (bind
           (if name = ''event'' then ProcessFormulaEvent gate i orig
            else if name = ''gate'' then
              bind (ProcessFormulaGate event_node gate i orig) (\<lambda>child. return (Some child))
            else if name = ''basic-event'' then
              bind (ProcessFormulaBasicEvent event_node gate i orig) (\<lambda>child. return (Some child))
            else
              bind (ProcessFormulaHouseEvent event_node gate i orig) (\<lambda>child. return (Some child)))
           (\<lambda>found. case found of
              None \<Rightarrow> return ()
            | Some child \<Rightarrow> modify (\<lambda>s. AddParent child gate (AddChild gate child s))))))"

primrec ProcessFormula_loop :: "addr \<Rightarrow> xml list \<Rightarrow> string list \<Rightarrow> unit builder" where
  "ProcessFormula_loop gate [] children_id = return ()"
| "ProcessFormula_loop gate (event_node # events) children_id =
     (let orig = trim (get_attribute_value event_node ''name'');
          i = to_lower orig
      in if i \<in> set children_id then
           throw (ValidationError (Line event_node (''Detected a repeated child '' @ orig)))
         else seq (ProcessFormula_child gate event_node i orig)
                (ProcessFormula_loop gate events (i # children_id)))"

definition ProcessFormula :: "addr \<Rightarrow> xml list \<Rightarrow> unit builder" where
  "ProcessFormula gate events = ProcessFormula_loop gate events []"

subsection \<open>Definitions of gates\<close>

definition DefineGate :: "lexical_cast \<Rightarrow> xml \<Rightarrow> string \<Rightarrow> unit builder" where
  "DefineGate lc gate_node ft =
     (let orig = trim (get_attribute_value gate_node ''name'');
          i = to_lower orig;
          formulas = find_content gate_node;
          gate_type_node = hd formulas;
          type = get_name gate_type_node
      in bind get (\<lambda>s.
         if map_count (gates s) i then
           throw (ValidationError (Line gate_node (orig @ '' gate is doubly defined.'')))
         else if map_count (primary_events s) i \<or> map_count (tbd_basic_events s) i
                 \<or> map_count (tbd_house_events s) i then
           throw (ValidationError
             (Line gate_node (''The id '' @ orig @ '' is already assigned to a primary event.'')))
         else if length formulas \<noteq> 1 then throw (AssertionFailure ''gates.size() == 1'')
         else if type \<notin> set gate_types then
           throw (ValidationError
             (Line gate_type_node
                (''Invalid input arguments. '' @ [CHR 0x27] @ orig @ [CHR 0x27]
                 @ '' gate formulae is not supported.'')))
         else
           bind (if type = ''atleast'' then
                   (case lexical_cast_int lc (trim (get_attribute_value gate_type_node ''min'')) of
                      None \<Rightarrow> throw bad_lexical_cast
                    | Some n \<Rightarrow> return n)
                 else return (- 1)) (\<lambda>vote.
           bind (case map_of (tbd_gates s) i of
                   Some tbd \<Rightarrow>
                     seq (modify (\<lambda>s. s\<lparr>tbd_gates := map_erase i (tbd_gates s)\<rparr>)) (return tbd)
                 | None \<Rightarrow>
                     bind (new_event (new_Event GateClass i orig)) (\<lambda>fresh.
                     bind (UpdateIfLateEvent fresh) (\<lambda>late. return fresh))) (\<lambda>i_event.
           seq (modify (\<lambda>s. s\<lparr>gates := map_insert (i, i_event) (gates s)\<rparr>))
          (seq (attach_event gate_node i_event)
          (seq (modify (\<lambda>s. s\<lparr>fault_trees :=
                                map_adjust ft (\<lambda>t. t\<lparr>ft_gates := ft_gates t @ [i_event]\<rparr>)
                                  (fault_trees s)\<rparr>))
          (seq (modify (update_event i_event (\<lambda>g. g\<lparr>gate_type := type\<rparr>)))
          (seq (if type = ''atleast'' then
                  modify (update_event i_event (\<lambda>g. g\<lparr>vote_number := vote\<rparr>))
                else return ())
          (ProcessFormula i_event (get_children gate_type_node))))))))))"

subsection \<open>Expressions\<close>

text \<open>
  \<open>expressions_\<close> is a set of pointers: a parameter and the mission time are shared
  objects and enter it once, every other expression is a new object.
\<close>

definition insert_expression :: "Expression \<Rightarrow> Expression list \<Rightarrow> Expression list" where
  "insert_expression e es =
     (if (case e of ParameterPtr a \<Rightarrow> True | MissionTimePtr \<Rightarrow> True | _ \<Rightarrow> False) \<and> e \<in> set es
      then es else es @ [e])"

definition GetConstantExpression :: "lexical_cast \<Rightarrow> xml \<Rightarrow> (Expression option) builder" where
  "GetConstantExpression lc expr_element =
     (let expr_name = get_name expr_element;
          val = trim (get_attribute_value expr_element ''value'')
      in if expr_name = ''float'' \<or> expr_name = ''int'' then
           (case lexical_cast_double lc val of
              None \<Rightarrow> throw bad_lexical_cast
            | Some num \<Rightarrow> return (Some (ConstantExpression_double num)))
         else if expr_name = ''bool'' then
           return (Some (ConstantExpression_bool (val = ''true'')))
         else return None)"

definition GetParameterExpression :: "xml \<Rightarrow> (Expression option) builder" where
  "GetParameterExpression expr_element =
     (let expr_name = get_name expr_element;
          name = get_attribute_value expr_element ''name''
      in if expr_name = ''parameter'' then
           bind get (\<lambda>s.
             if map_count (parameters s) name then
               return (map_option ParameterPtr (map_of (parameters s) name))
             else if map_count (tbd_parameters s) name then
               return (map_option ParameterPtr (map_of (tbd_parameters s) name))
             else
               bind (new_parameter (new_Parameter name)) (\<lambda>param.
               seq (modify (\<lambda>s. s\<lparr>tbd_parameters :=
                                    map_insert (name, param) (tbd_parameters s)\<rparr>))
                 (return (Some (ParameterPtr param)))))
         else if expr_name = ''system-mission-time'' then return (Some MissionTimePtr)
         else return None)"

text \<open>
  \<open>GetExpression\<close> and \<open>GetDeviateExpression\<close> call each other. Each kind of deviate
  asserts the number of its arguments and reads them in order; the bins of a histogram
  are read in a loop, each with its boundary and its weight.
\<close>

fun GetExpression :: "lexical_cast \<Rightarrow> xml \<Rightarrow> Expression builder"
  and GetDeviateExpression :: "lexical_cast \<Rightarrow> xml \<Rightarrow> (Expression option) builder"
  and GetHistogramBins ::
    "lexical_cast \<Rightarrow> xml list \<Rightarrow> (Expression list \<times> Expression list) builder"
where
  "GetExpression lc (Element n l a t cs) =
     bind
       (bind (GetConstantExpression lc (Element n l a t cs)) (\<lambda>constant.
          case constant of
            Some e \<Rightarrow> return (Some e)
          | None \<Rightarrow>
              bind (GetParameterExpression (Element n l a t cs)) (\<lambda>parameter.
                case parameter of
                  Some e \<Rightarrow> return (Some e)
                | None \<Rightarrow> GetDeviateExpression lc (Element n l a t cs))))
       (\<lambda>found.
          case found of
            None \<Rightarrow>
              throw (ValidationError
                (Line (Element n l a t cs) (''Unsupported expression: '' @ n)))
          | Some e \<Rightarrow>
              seq (modify (\<lambda>s. s\<lparr>expressions := insert_expression e (expressions s)\<rparr>))
                (return e))"
| "GetDeviateExpression lc (Element n l a t cs) =
     (if n = ''uniform-deviate'' then
        (case cs of
           [x0, x1] \<Rightarrow>
             bind (GetExpression lc x0) (\<lambda>min.
             bind (GetExpression lc x1) (\<lambda>max.
             return (Some (UniformDeviate min max))))
         | _ \<Rightarrow> throw (AssertionFailure ''expr_element->find(./*).size() == 2''))
      else if n = ''normal-deviate'' then
        (case cs of
           [x0, x1] \<Rightarrow>
             bind (GetExpression lc x0) (\<lambda>mean.
             bind (GetExpression lc x1) (\<lambda>sigma.
             return (Some (NormalDeviate mean sigma))))
         | _ \<Rightarrow> throw (AssertionFailure ''expr_element->find(./*).size() == 2''))
      else if n = ''lognormal-deviate'' then
        (case cs of
           [x0, x1, x2] \<Rightarrow>
             bind (GetExpression lc x0) (\<lambda>mean.
             bind (GetExpression lc x1) (\<lambda>ef.
             bind (GetExpression lc x2) (\<lambda>level.
             return (Some (LogNormalDeviate mean ef level)))))
         | _ \<Rightarrow> throw (AssertionFailure ''expr_element->find(./*).size() == 3''))
      else if n = ''gamma-deviate'' then
        (case cs of
           [x0, x1] \<Rightarrow>
             bind (GetExpression lc x0) (\<lambda>k.
             bind (GetExpression lc x1) (\<lambda>theta.
             return (Some (GammaDeviate k theta))))
         | _ \<Rightarrow> throw (AssertionFailure ''expr_element->find(./*).size() == 2''))
      else if n = ''beta-deviate'' then
        (case cs of
           [x0, x1] \<Rightarrow>
             bind (GetExpression lc x0) (\<lambda>alpha.
             bind (GetExpression lc x1) (\<lambda>beta.
             return (Some (BetaDeviate alpha beta))))
         | _ \<Rightarrow> throw (AssertionFailure ''expr_element->find(./*).size() == 2''))
      else if n = ''histogram'' then
        bind (GetHistogramBins lc cs) (\<lambda>bins.
        return (Some (Histogram (fst bins) (snd bins))))
      else if n = ''exponential'' then
        (case cs of
           [x0, x1] \<Rightarrow>
             bind (GetExpression lc x0) (\<lambda>lambda.
             bind (GetExpression lc x1) (\<lambda>time.
             return (Some (ExponentialExpression lambda time))))
         | _ \<Rightarrow> throw (AssertionFailure ''expr_element->find(./*).size() == 2''))
      else if n = ''GLM'' then
        (case cs of
           [x0, x1, x2, x3] \<Rightarrow>
             bind (GetExpression lc x0) (\<lambda>gamma.
             bind (GetExpression lc x1) (\<lambda>lambda.
             bind (GetExpression lc x2) (\<lambda>mu.
             bind (GetExpression lc x3) (\<lambda>time.
             return (Some (GlmExpression gamma lambda mu time))))))
         | _ \<Rightarrow> throw (AssertionFailure ''expr_element->find(./*).size() == 4''))
      else if n = ''Weibull'' then
        (case cs of
           [x0, x1, x2, x3] \<Rightarrow>
             bind (GetExpression lc x0) (\<lambda>alpha.
             bind (GetExpression lc x1) (\<lambda>beta.
             bind (GetExpression lc x2) (\<lambda>t0.
             bind (GetExpression lc x3) (\<lambda>time.
             return (Some (WeibullExpression alpha beta t0 time))))))
         | _ \<Rightarrow> throw (AssertionFailure ''expr_element->find(./*).size() == 4''))
      else return None)"
| "GetHistogramBins lc [] = return ([], [])"
| "GetHistogramBins lc (Element n l a t cs # bins) =
     (case cs of
        [x0, x1] \<Rightarrow>
          bind (GetExpression lc x0) (\<lambda>bound.
          bind (GetExpression lc x1) (\<lambda>weight.
          bind (GetHistogramBins lc bins) (\<lambda>rest.
          return (bound # fst rest, weight # snd rest))))
      | _ \<Rightarrow> throw (AssertionFailure ''el->find(./*).size() == 2''))"

subsection \<open>Definitions of basic events, house events and parameters\<close>

definition GetBasicEvent :: "xml \<Rightarrow> addr builder" where
  "GetBasicEvent event_node =
     (let orig = trim (get_attribute_value event_node ''name'');
          i = to_lower orig
      in bind get (\<lambda>s.
         if map_count (gates s) i \<or> map_count (tbd_gates s) i then
           throw (ValidationError
             (Line event_node (''The id '' @ orig @ '' is already assigned to a gate.'')))
         else if map_count (primary_events s) i then
           throw (ValidationError
             (Line event_node (''The id '' @ orig @ '' is doubly defined.'')))
         else if map_count (tbd_house_events s) i then
           throw (ValidationError
             (Line event_node (''The id '' @ orig @ '' is already used by a house event.'')))
         else
           case map_of (tbd_basic_events s) i of
             Some basic_event \<Rightarrow>
               seq (modify (\<lambda>s. s\<lparr>primary_events := map_insert (i, basic_event) (primary_events s),
                                    basic_events := map_insert (i, basic_event) (basic_events s),
                                    tbd_basic_events := map_erase i (tbd_basic_events s)\<rparr>))
                 (return basic_event)
           | None \<Rightarrow>
               bind (new_event (new_Event BasicEventClass i orig)) (\<lambda>basic_event.
               seq (modify (\<lambda>s. s\<lparr>primary_events := map_insert (i, basic_event) (primary_events s),
                                    basic_events := map_insert (i, basic_event) (basic_events s)\<rparr>))
              (bind (UpdateIfLateEvent basic_event) (\<lambda>late. return basic_event)))))"

definition DefineBasicEvent :: "lexical_cast \<Rightarrow> xml \<Rightarrow> unit builder" where
  "DefineBasicEvent lc event_node =
     (let exprs = find_content event_node
      in bind (GetBasicEvent event_node) (\<lambda>basic_event.
         seq (if exprs \<noteq> [] then
                bind (GetExpression lc (last exprs)) (\<lambda>e.
                modify (update_event basic_event (\<lambda>b. b\<lparr>expression := Some e\<rparr>)))
              else
                bind get (\<lambda>s.
                throw (ValidationError
                  (Line event_node
                     (''The '' @ orig_id_of s basic_event
                      @ '' basic event does not have an expression.'')))))
           (attach_event event_node basic_event)))"

definition DefineHouseEvent :: "xml \<Rightarrow> unit builder" where
  "DefineHouseEvent event_node =
     (let orig = trim (get_attribute_value event_node ''name'');
          i = to_lower orig;
          constants = find_named event_node ''constant'';
          val = trim (get_attribute_value (hd constants) ''value'')
      in bind get (\<lambda>s.
         if map_count (gates s) i \<or> map_count (tbd_gates s) i then
           throw (ValidationError
             (Line event_node (''The id '' @ orig @ '' is already assigned to a gate.'')))
         else if map_count (primary_events s) i then
           throw (ValidationError
             (Line event_node (''The id '' @ orig @ '' is doubly defined.'')))
         else if map_count (tbd_basic_events s) i then
           throw (ValidationError
             (Line event_node (''The id '' @ orig @ '' is already used by a basic event.'')))
         else if constants = [] then
           throw (ValidationError
             (Line event_node
                (''The '' @ orig @ '' house event does not have a Boolean constant expression.'')))
         else
           seq (assert (length constants = 1) ''expression.size() == 1'')
          (seq (assert (val = ''true'' \<or> val = ''false'') ''val == true || val == false'')
          (bind
             (case map_of (tbd_house_events s) i of
                Some house_event \<Rightarrow>
                  seq (modify (update_event house_event (\<lambda>h. h\<lparr>house_state := (val = ''true'')\<rparr>)))
                 (seq (modify (\<lambda>s. s\<lparr>primary_events := map_insert (i, house_event) (primary_events s),
                                       tbd_house_events := map_erase i (tbd_house_events s)\<rparr>))
                    (return house_event))
              | None \<Rightarrow>
                  bind (new_event ((new_Event HouseEventClass i orig)\<lparr>house_state := (val = ''true'')\<rparr>))
                    (\<lambda>house_event.
                  seq (modify (\<lambda>s. s\<lparr>primary_events := map_insert (i, house_event) (primary_events s)\<rparr>))
                 (bind (UpdateIfLateEvent house_event) (\<lambda>late. return house_event))))
             (\<lambda>house_event. attach_event event_node house_event)))))"

definition DefineParameter :: "lexical_cast \<Rightarrow> xml \<Rightarrow> unit builder" where
  "DefineParameter lc param_node =
     (let name = trim (get_attribute_value param_node ''name'');
          unit = get_attribute_value param_node ''unit'';
          exprs = find_content param_node
      in bind get (\<lambda>s.
         if map_count (parameters s) name then
           throw (ValidationError
             (Line param_node (''The '' @ name @ '' parameter is doubly defined.'')))
         else
           bind
             (case map_of (tbd_parameters s) name of
                Some parameter \<Rightarrow>
                  seq (modify (\<lambda>s. s\<lparr>parameters := map_insert (name, parameter) (parameters s),
                                       tbd_parameters := map_erase name (tbd_parameters s)\<rparr>))
                    (return parameter)
              | None \<Rightarrow>
                  bind (new_parameter (new_Parameter name)) (\<lambda>parameter.
                  seq (modify (\<lambda>s. s\<lparr>parameters := map_insert (name, parameter) (parameters s)\<rparr>))
                    (return parameter)))
             (\<lambda>parameter.
           seq (if unit \<noteq> [] then
                  (case map_of units unit of
                     None \<Rightarrow> throw (AssertionFailure ''units_.count(unit)'')
                   | Some u \<Rightarrow> modify (update_parameter parameter (\<lambda>p. p\<lparr>param_unit := u\<rparr>)))
                else return ())
          (seq (assert (length exprs = 1) ''expressions.size() == 1'')
          (bind (GetExpression lc (last exprs)) (\<lambda>e.
           seq (modify (update_parameter parameter (\<lambda>p. p\<lparr>param_expression := Some e\<rparr>)))
             (attach_parameter param_node parameter)))))))"

subsection \<open>Groups of common cause failures\<close>

definition DefineCcfFactor :: "lexical_cast \<Rightarrow> xml \<Rightarrow> string \<Rightarrow> unit builder" where
  "DefineCcfFactor lc factor_node ccf_group =
     (let level = trim (get_attribute_value factor_node ''level'')
      in if level = [] then
           throw (ValidationError
             (Line factor_node ''The CCF group factor level number is not provided.''))
         else
           case lexical_cast_int lc level of
             None \<Rightarrow> throw bad_lexical_cast
           | Some level_num \<Rightarrow>
               (case get_children factor_node of
                  [expr_node] \<Rightarrow>
                    bind (GetExpression lc expr_node) (\<lambda>e.
                    modify (\<lambda>s. s\<lparr>ccf_groups :=
                      map_adjust ccf_group (\<lambda>g. g\<lparr>factors := factors g @ [(e, level_num)]\<rparr>)
                        (ccf_groups s)\<rparr>))
                | _ \<Rightarrow> throw (AssertionFailure ''factor_node->find(./*).size() == 1'')))"

definition ProcessCcfFactors :: "lexical_cast \<Rightarrow> xml \<Rightarrow> string \<Rightarrow> unit builder" where
  "ProcessCcfFactors lc factors_node ccf_group =
     seq (assert (get_children factors_node \<noteq> []) ''!children.empty()'')
       (for_each (get_children factors_node)
          (\<lambda>factor_node. DefineCcfFactor lc factor_node ccf_group))"

definition ProcessCcfMembers :: "xml \<Rightarrow> string \<Rightarrow> unit builder" where
  "ProcessCcfMembers members_node ccf_group =
     seq (assert (get_children members_node \<noteq> []) ''!children.empty()'')
       (for_each (get_children members_node)
          (\<lambda>event_node.
             seq (assert (get_name event_node = ''basic-event'')
                    ''basic-event == event_node->get_name()'')
               (bind (GetBasicEvent event_node) (\<lambda>basic_event.
                modify (\<lambda>s. s\<lparr>ccf_groups :=
                  map_adjust ccf_group (\<lambda>g. g\<lparr>members := members g @ [basic_event]\<rparr>)
                    (ccf_groups s)\<rparr>)))))"

definition DefineCcfGroup_child :: "lexical_cast \<Rightarrow> string \<Rightarrow> xml \<Rightarrow> unit builder" where
  "DefineCcfGroup_child lc ccf_group element =
     (let name = get_name element
      in if name = ''members'' then ProcessCcfMembers element ccf_group
         else if name = ''distribution'' then
           (case get_children element of
              [expr_node] \<Rightarrow>
                bind (GetExpression lc expr_node) (\<lambda>e.
                modify (\<lambda>s. s\<lparr>ccf_groups :=
                  map_adjust ccf_group (\<lambda>g. g\<lparr>distribution := Some e\<rparr>) (ccf_groups s)\<rparr>))
            | _ \<Rightarrow> throw (AssertionFailure ''element->find(./*).size() == 1''))
         else if name = ''factor'' then DefineCcfFactor lc element ccf_group
         else if name = ''factors'' then ProcessCcfFactors lc element ccf_group
         else return ())"

definition DefineCcfGroup :: "lexical_cast \<Rightarrow> xml \<Rightarrow> unit builder" where
  "DefineCcfGroup lc ccf_node =
     (let name = get_attribute_value ccf_node ''name'';
          i = to_lower name;
          model = get_attribute_value ccf_node ''model''
      in bind get (\<lambda>s.
         if map_count (ccf_groups s) i then
           throw (ValidationError
             (Line ccf_node (''The CCF group '' @ name @ '' is already defined.'')))
         else
           seq (assert (model \<in> set [''beta-factor'', ''alpha-factor'', ''MGL'', ''phi-factor''])
                  ''model == beta-factor || model == alpha-factor || model == MGL || model == phi-factor'')
          (seq (modify (\<lambda>s. s\<lparr>ccf_groups :=
                  map_insert (i, \<lparr>label = [], attributes = [], ccf_name = name, ccf_model = model,
                                  members = [], distribution = None, factors = []\<rparr>)
                    (ccf_groups s)\<rparr>))
          (seq (modify (\<lambda>s. s\<lparr>prob_requested := True\<rparr>))
          (seq (attach_ccf_group ccf_node i)
             (for_each (get_children ccf_node) (DefineCcfGroup_child lc i)))))))"

subsection \<open>Fault trees and model data\<close>

definition DefineFaultTree_child :: "lexical_cast \<Rightarrow> string \<Rightarrow> xml \<Rightarrow> unit builder" where
  "DefineFaultTree_child lc fault_tree element =
     (let name = get_name element
      in seq (modify (\<lambda>s.
                if \<not> prob_requested s
                   \<and> (name = ''define-basic-event'' \<or> name = ''define-house-event'')
                then s\<lparr>prob_requested := True\<rparr> else s))
           (if name = ''define-gate'' then DefineGate lc element fault_tree
            else if name = ''define-basic-event'' then DefineBasicEvent lc element
            else if name = ''define-house-event'' then DefineHouseEvent element
            else if name = ''define-parameter'' then DefineParameter lc element
            else if name = ''define-CCF-group'' then DefineCcfGroup lc element
            else return ()))"

definition DefineFaultTree :: "lexical_cast \<Rightarrow> xml \<Rightarrow> unit builder" where
  "DefineFaultTree lc ft_node =
     (let name = get_attribute_value ft_node ''name'';
          i = to_lower name
      in bind get (\<lambda>s.
         if map_count (fault_trees s) i then
           throw (ValidationError
             (Line ft_node (''The fault tree '' @ name @ '' is already defined.'')))
         else
           seq (modify (\<lambda>s. s\<lparr>fault_trees :=
                  map_insert (i, \<lparr>label = [], attributes = [], ft_name = name, ft_gates = []\<rparr>)
                    (fault_trees s)\<rparr>))
          (seq (attach_fault_tree ft_node i)
             (for_each (get_children ft_node) (DefineFaultTree_child lc i)))))"

definition ProcessModelData_child :: "lexical_cast \<Rightarrow> xml \<Rightarrow> unit builder" where
  "ProcessModelData_child lc element =
     (let name = get_name element
      in if name = ''define-basic-event'' then DefineBasicEvent lc element
         else if name = ''define-house-event'' then DefineHouseEvent element
         else if name = ''define-parameter'' then DefineParameter lc element
         else return ())"

definition ProcessModelData :: "lexical_cast \<Rightarrow> xml \<Rightarrow> unit builder" where
  "ProcessModelData lc model_data =
     seq (modify (\<lambda>s. s\<lparr>prob_requested := True\<rparr>))
       (for_each (get_children model_data) (ProcessModelData_child lc))"

subsection \<open>Input files\<close>

text \<open>
  \<open>ProcessInputFile\<close> is given the root element of the parsed and validated document
  of the file, in place of the name of the file.
\<close>

definition ProcessInputFile_child :: "lexical_cast \<Rightarrow> xml \<Rightarrow> unit builder" where
  "ProcessInputFile_child lc element =
     (let name = get_name element
      in if name = ''define-fault-tree'' then DefineFaultTree lc element
         else if name = ''define-CCF-group'' then DefineCcfGroup lc element
         else if name = ''model-data'' then ProcessModelData lc element
         else throw (ValidationError (''Cannot handle '' @ [CHR 0x27] @ name @ [CHR 0x27])))"

definition ProcessInputFile :: "lexical_cast \<Rightarrow> xml \<Rightarrow> unit builder" where
  "ProcessInputFile lc doc =
     seq (assert (get_name doc = ''opsa-mef'') ''root->get_name() == opsa-mef'')
       (for_each (get_children doc) (ProcessInputFile_child lc))"

subsection \<open>The first layer of the validation\<close>

text \<open>
  The functions of the validation read the state. A message is the text written to
  the string stream; the empty message says that there is no problem.
\<close>

definition is_conditional :: "RiskAnalysis \<Rightarrow> addr \<Rightarrow> bool" where
  "is_conditional s child =
     (case events_store s child of
        None \<Rightarrow> False
      | Some c \<Rightarrow>
          HasAttribute c ''flavor''
          \<and> map_option attr_value (GetAttribute c ''flavor'') = Some ''conditional'')"

definition CheckInhibitGate :: "RiskAnalysis \<Rightarrow> Event \<Rightarrow> string" where
  "CheckInhibitGate s g =
     (if length (children g) \<noteq> 2 then
        orig_id g @ '' : '' @ ''INHIBIT gate must have exactly 2 children.'' @ endl
      else
        let scan = fold (\<lambda>child found_msg.
                     if map_count (primary_events s) (fst child) \<and> is_conditional s (snd child)
                     then
                       (if \<not> fst found_msg then (True, snd found_msg)
                        else (fst found_msg,
                              snd found_msg @ orig_id g @ '' : '' @ ''INHIBIT''
                              @ '' gate must have exactly one conditional event.'' @ endl))
                     else found_msg)
                   (children g) (False, [])
        in if \<not> fst scan then
             snd scan @ orig_id g @ '' : '' @ ''INHIBIT''
             @ '' gate is missing a conditional event.'' @ endl
           else snd scan)"

definition CheckGate :: "RiskAnalysis \<Rightarrow> Event \<Rightarrow> string" where
  "CheckGate s g =
     (let size = int (length (children g));
          gate =
            (if gate_type g = ''and'' \<and> HasAttribute g ''flavor''
                \<and> map_option attr_value (GetAttribute g ''flavor'') = Some ''inhibit''
             then ''inhibit'' else gate_type g)
      in if children g = [] then orig_id g @ '' : No children detected.''
         else if gate \<in> set [''and'', ''or'', ''nand'', ''nor''] then
           (if size < 2 then
              orig_id g @ '' : '' @ to_upper gate @ '' gate must have 2 or more ''
              @ ''children.'' @ endl
            else [])
         else if gate \<in> set [''null'', ''not''] then
           (if size \<noteq> 1 then
              orig_id g @ '' : '' @ to_upper gate @ '' gate must have exactly one child.''
            else [])
         else if gate = ''xor'' then
           (if size \<noteq> 2 then
              orig_id g @ '' : '' @ to_upper gate @ '' gate must have exactly 2 children.'' @ endl
            else [])
         else if gate = ''inhibit'' then CheckInhibitGate s g
         else if gate = ''atleast'' then
           (if size \<le> vote_number g then
              orig_id g @ '' : '' @ to_upper gate
              @ '' gate must have more children than its vote number ''
              @ decimal_int (vote_number g) @ ''.''
            else [])
         else
           orig_id g @ '' : Gate Check failure. No check for '' @ to_upper gate @ '' gate.'')"

definition CheckAllGates :: "RiskAnalysis \<Rightarrow> string" where
  "CheckAllGates s =
     concat (map (\<lambda>entry. case events_store s (snd entry) of
                             None \<Rightarrow> []
                           | Some g \<Rightarrow> CheckGate s g) (gates s))"

text \<open>
  \<open>CheckMissingEvents\<close> reads the original id of an untyped event from
  \<open>tbd_orig_ids_\<close> through the iterator that \<open>find\<close> returns; where the key is absent
  that is the end iterator, and dereferencing it is a failure.
\<close>

definition CheckMissingEvents :: "RiskAnalysis \<Rightarrow> error + string" where
  "CheckMissingEvents s =
     (let house =
            (if tbd_house_events s \<noteq> [] then
               endl @ ''Missing definitions for House events:'' @ endl
               @ concat (map (\<lambda>entry. orig_id_of s (snd entry) @ endl) (tbd_house_events s))
             else []);
          basic =
            (if tbd_basic_events s \<noteq> [] then
               endl @ ''Missing definitions for Basic events:'' @ endl
               @ concat (map (\<lambda>entry. orig_id_of s (snd entry) @ endl) (tbd_basic_events s))
             else [])
      in if tbd_events s = [] then Inr (house @ basic)
         else
           case those (map (\<lambda>entry. map_of (tbd_orig_ids s) (fst entry)) (tbd_events s)) of
             None \<Rightarrow> Inl invalid_iterator
           | Some origs \<Rightarrow>
               Inr (house @ basic @ endl @ ''Missing definitions for Untyped events:'' @ endl
                    @ concat (map (\<lambda>orig. orig @ endl) origs)))"

definition CheckMissingParameters :: "RiskAnalysis \<Rightarrow> string" where
  "CheckMissingParameters s =
     (if tbd_parameters s \<noteq> [] then
        endl @ ''Missing parameter definitions:'' @ endl
        @ concat (map (\<lambda>entry. fst entry @ endl) (tbd_parameters s))
      else [])"

text \<open>
  Modelled from the spec: the member functions \<open>Validate\<close>, \<open>ValidateDistribution\<close>,
  \<open>ApplyModel\<close> and \<open>SetupForAnalysis\<close> of parameters, expressions, basic events, fault
  trees and CCF groups are outside the analysed sources. They are parameters of the
  functions that call them.
\<close>

record methods =
  Parameter_Validate :: "addr \<Rightarrow> unit builder"
  Expression_Validate :: "Expression \<Rightarrow> unit builder"
  BasicEvent_Validate :: "addr \<Rightarrow> unit builder"
  CcfGroup_ValidateDistribution :: "string \<Rightarrow> unit builder"
  CcfGroup_Validate :: "string \<Rightarrow> unit builder"
  CcfGroup_ApplyModel :: "string \<Rightarrow> unit builder"
  FaultTree_Validate :: "string \<Rightarrow> unit builder"
  FaultTree_SetupForAnalysis :: "string \<Rightarrow> unit builder"

text \<open>
  A loop that catches the \<open>ValidationError\<close> of each step and appends it, with the
  name of the object, to a message.
\<close>

primrec collect_errors ::
  "'a list \<Rightarrow> ('a \<Rightarrow> unit builder) \<Rightarrow> (RiskAnalysis \<Rightarrow> 'a \<Rightarrow> string) \<Rightarrow> string \<Rightarrow> string builder"
where
  "collect_errors [] step name msg = return msg"
| "collect_errors (x # xs) step name msg =
     (\<lambda>s. case step x s of
             (Inl (ValidationError err), s') \<Rightarrow>
               collect_errors xs step name (msg @ name s' x @ '' : '' @ err @ endl) s'
           | (Inl e, s') \<Rightarrow> (Inl e, s')
           | (Inr u, s') \<Rightarrow> collect_errors xs step name msg s')"

definition ValidateExpressions :: "methods \<Rightarrow> unit builder" where
  "ValidateExpressions ms =
     bind get (\<lambda>s.
     seq (for_each (parameters s) (\<lambda>entry. Parameter_Validate ms (snd entry)))
    (seq (\<lambda>s1. case for_each (expressions s) (Expression_Validate ms) s1 of
                  (Inl (InvalidArgument err), s') \<Rightarrow> (Inl (ValidationError err), s')
                | other \<Rightarrow> other)
       (if prob_requested s then
          bind (collect_errors (sort_key fst (ccf_groups s))
                  (\<lambda>entry. CcfGroup_ValidateDistribution ms (fst entry))
                  (\<lambda>s' entry. ccf_name (snd entry)) []) (\<lambda>msg1.
          bind (collect_errors (basic_events s)
                  (\<lambda>entry. BasicEvent_Validate ms (snd entry))
                  (\<lambda>s' entry. orig_id_of s' (snd entry)) msg1) (\<lambda>msg.
          if msg \<noteq> [] then
            throw (ValidationError (''Invalid probabilities detected:'' @ endl @ msg))
          else return ()))
        else return ())))"

definition CheckFirstLayer :: "methods \<Rightarrow> unit builder" where
  "CheckFirstLayer ms =
     bind get (\<lambda>s.
       let undefined_gates =
             (if tbd_gates s \<noteq> [] then
                ''Undefined gates:'' @ endl
                @ concat (map (\<lambda>entry. orig_id_of s (snd entry) @ endl) (tbd_gates s))
              else []);
           bad_gates = CheckAllGates s;
           problems =
             (if bad_gates \<noteq> [] then
                endl @ ''There are problems with the initialized gates:'' @ endl @ bad_gates
              else [])
       in bind (if prob_requested s then
                  (case CheckMissingEvents s of
                     Inl e \<Rightarrow> throw e
                   | Inr missing_events \<Rightarrow> return (missing_events @ CheckMissingParameters s))
                else return []) (\<lambda>missing.
          let error_messages = undefined_gates @ problems @ missing
          in if error_messages \<noteq> [] then throw (ValidationError error_messages)
             else ValidateExpressions ms))"

definition CheckSecondLayer :: "methods \<Rightarrow> unit builder" where
  "CheckSecondLayer ms =
     bind get (\<lambda>s.
     seq (for_each (sort_key fst (fault_trees s)) (\<lambda>entry. FaultTree_Validate ms (fst entry)))
       (for_each (sort_key fst (ccf_groups s)) (\<lambda>entry. CcfGroup_Validate ms (fst entry))))"

text \<open>
  \<open>ValidateInitialization\<close>: after the two layers, the primary events without a
  parent are gathered (asking such an event for its parents throws \<open>LogicError\<close>).
\<close>

definition ValidateInitialization :: "methods \<Rightarrow> unit builder" where
  "ValidateInitialization ms =
     seq (CheckFirstLayer ms)
    (seq (CheckSecondLayer ms)
       (modify (\<lambda>s. s\<lparr>orphan_primary_events :=
          fold (\<lambda>entry orphans.
                  case events_store s (snd entry) of
                    None \<Rightarrow> orphans
                  | Some e \<Rightarrow> if parents e = [] then List.insert (snd entry) orphans else orphans)
            (primary_events s) (orphan_primary_events s)\<rparr>)))"

definition SetupForAnalysis :: "methods \<Rightarrow> unit builder" where
  "SetupForAnalysis ms =
     bind get (\<lambda>s.
     seq (for_each (sort_key fst (ccf_groups s)) (\<lambda>entry. CcfGroup_ApplyModel ms (fst entry)))
       (for_each (sort_key fst (fault_trees s))
          (\<lambda>entry. FaultTree_SetupForAnalysis ms (fst entry))))"

subsection \<open>The end of the input\<close>

text \<open>
  The block of \<open>ProcessInputFiles\<close> that runs after the last file when no
  probability was requested: every event that is still to be defined becomes a
  primary event, and every untyped one is created as a basic event and attached to the
  gates that asked for it.
\<close>

definition put_undefined_as_primary :: "unit builder" where
  "put_undefined_as_primary =
     bind get (\<lambda>s.
     seq (modify (\<lambda>s. s\<lparr>primary_events := fold map_insert (tbd_house_events s) (primary_events s)\<rparr>))
    (seq (modify (\<lambda>s. s\<lparr>primary_events := fold map_insert (tbd_basic_events s) (primary_events s),
                         basic_events := fold map_insert (tbd_basic_events s) (basic_events s)\<rparr>))
       (for_each (tbd_events s) (\<lambda>entry.
          case map_of (tbd_orig_ids s) (fst entry) of
            None \<Rightarrow> throw invalid_iterator
          | Some orig \<Rightarrow>
              bind (new_event (new_Event BasicEventClass (fst entry) orig)) (\<lambda>child.
              seq (modify (\<lambda>s. s\<lparr>primary_events := map_insert (fst entry, child) (primary_events s),
                                   basic_events := map_insert (fst entry, child) (basic_events s)\<rparr>))
                (modify (fold (\<lambda>parent s. AddParent child parent (AddChild parent child s))
                           (snd entry))))))))"

text \<open>
  \<open>ProcessInputFiles\<close> is given, for each file, its name and the root element of its
  document. A \<open>ValidationError\<close> of a file is thrown again with the name of the file in
  front of its message.
\<close>

definition ProcessInputFiles :: "lexical_cast \<Rightarrow> methods \<Rightarrow> (string \<times> xml) list \<Rightarrow> unit builder" where
  "ProcessInputFiles lc ms xml_files =
     seq (\<lambda>s. case MissionTime_value (settings_mission_time s) (mission_time s) of
                 Inl e \<Rightarrow> (Inl e, s)
               | Inr mt \<Rightarrow> (Inr (), s\<lparr>mission_time := mt\<rparr>))
    (seq (for_each xml_files (\<lambda>file s.
            case ProcessInputFile lc (snd file) s of
              (Inl (ValidationError msg), s') \<Rightarrow>
                (Inl (ValidationError
                   (''In file '' @ [CHR 0x27] @ fst file @ [CHR 0x27] @ '', '' @ msg)), s')
            | other \<Rightarrow> other))
    (seq (bind get (\<lambda>s. if \<not> prob_requested s then put_undefined_as_primary else return ()))
    (seq (ValidateInitialization ms)
       (SetupForAnalysis ms))))"

subsection \<open>The arity rules of gates\<close>







definition example_cast :: lexical_cast where
  "example_cast =
     \<lparr>lexical_cast_int = (\<lambda>numeral. if numeral = ''1'' then Some 1
                                    else if numeral = ''2'' then Some 2 else None),
      lexical_cast_double = (\<lambda>numeral. None)\<rparr>"

definition idle_methods :: methods where
  "idle_methods =
     \<lparr>Parameter_Validate = (\<lambda>a. return ()), Expression_Validate = (\<lambda>e. return ()),
      BasicEvent_Validate = (\<lambda>a. return ()), CcfGroup_ValidateDistribution = (\<lambda>k. return ()),
      CcfGroup_Validate = (\<lambda>k. return ()), CcfGroup_ApplyModel = (\<lambda>k. return ()),
      FaultTree_Validate = (\<lambda>k. return ()), FaultTree_SetupForAnalysis = (\<lambda>k. return ())\<rparr>"

definition before_validation :: "xml \<Rightarrow> RiskAnalysis" where
  "before_validation doc =
     snd (seq (ProcessInputFile example_cast doc)
            (bind get (\<lambda>s. if \<not> prob_requested s then put_undefined_as_primary else return ()))
            RiskAnalysis_init)"




subsection \<open>What a message mentions\<close>

definition mentions :: "string \<Rightarrow> string \<Rightarrow> bool" where
  "mentions msg text = sublist text msg"

text \<open>
  Two inputs for the first layer. In the first no probability is requested: a gate
  refers to a gate that is never defined, and a parameter to a parameter that is never
  defined. The second requests probabilities and has a defect of every kind.
\<close>

definition missing_parameter_example :: xml where
  "missing_parameter_example =
     Element ''opsa-mef'' 1 [] None
       [Element ''define-fault-tree'' 2 [(''name'', ''FT'')] None
          [Element ''define-gate'' 3 [(''name'', ''Top'')] None
             [Element ''and'' 4 [] None
                [Element ''gate'' 5 [(''name'', ''G2'')] None [],
                 Element ''event'' 6 [(''name'', ''E'')] None []]],
           Element ''define-parameter'' 7 [(''name'', ''P1'')] None
             [Element ''parameter'' 8 [(''name'', ''lambda'')] None []]]]"

definition all_defects_example :: xml where
  "all_defects_example =
     Element ''opsa-mef'' 1 [] None
       [Element ''define-fault-tree'' 2 [(''name'', ''FT'')] None
          [Element ''define-gate'' 3 [(''name'', ''Top'')] None
             [Element ''xor'' 4 [] None
                [Element ''gate'' 5 [(''name'', ''G2'')] None [],
                 Element ''event'' 6 [(''name'', ''E'')] None [],
                 Element ''basic-event'' 7 [(''name'', ''B'')] None [],
                 Element ''house-event'' 8 [(''name'', ''H'')] None []]]],
        Element ''model-data'' 9 [] None
          [Element ''define-parameter'' 10 [(''name'', ''P1'')] None
             [Element ''parameter'' 11 [(''name'', ''lambda'')] None []]]]"

subsection \<open>Kinds of validation errors\<close>

text \<open>
  All validation errors are of one class; the kind of an error shows in its message.
  A duplicate definition is reported as doubly defined, an identifier conflict as an
  id that is already assigned to, or used by, an event of another kind.
\<close>

definition DuplicateDefinition :: "error \<Rightarrow> bool" where
  "DuplicateDefinition e =
     (case e of ValidationError msg \<Rightarrow> suffix '' is doubly defined.'' msg | _ \<Rightarrow> False)"

definition IdentifierConflict :: "error \<Rightarrow> bool" where
  "IdentifierConflict e =
     (case e of
        ValidationError msg \<Rightarrow>
          suffix '' is already assigned to a gate.'' msg
          \<or> suffix '' is already assigned to a primary event.'' msg
          \<or> suffix '' is already used by a house event.'' msg
          \<or> suffix '' is already used by a basic event.'' msg
      | _ \<Rightarrow> False)"

text \<open>
  Inputs for the definitions: a house event defined and then defined again as a basic
  event; and a fault tree with a gate, a reference to a gate, a defined house event, a
  defined basic event and references to a basic and to a house event.
\<close>

definition house_example :: xml where
  "house_example =
     Element ''opsa-mef'' 1 [] None
       [Element ''define-fault-tree'' 2 [(''name'', ''FT'')] None
          [Element ''define-house-event'' 3 [(''name'', ''H'')] None
             [Element ''constant'' 4 [(''value'', ''true'')] None []]]]"

definition house_then_basic_example :: xml where
  "house_then_basic_example =
     Element ''opsa-mef'' 1 [] None
       [Element ''define-fault-tree'' 2 [(''name'', ''FT'')] None
          [Element ''define-house-event'' 3 [(''name'', ''H'')] None
             [Element ''constant'' 4 [(''value'', ''true'')] None []],
           Element ''define-basic-event'' 5 [(''name'', ''H'')] None
             [Element ''bool'' 6 [(''value'', ''true'')] None []]]]"

definition definition_node :: "string \<Rightarrow> xml" where
  "definition_node name = Element ''define'' 5 [(''name'', name)] None []"

definition kinds_example :: xml where
  "kinds_example =
     Element ''opsa-mef'' 1 [] None
       [Element ''define-fault-tree'' 2 [(''name'', ''FT'')] None
          [Element ''define-gate'' 3 [(''name'', ''Top'')] None
             [Element ''or'' 4 [] None
                [Element ''gate'' 5 [(''name'', ''G2'')] None [],
                 Element ''basic-event'' 6 [(''name'', ''B'')] None [],
                 Element ''house-event'' 7 [(''name'', ''Hh'')] None []]],
           Element ''define-house-event'' 8 [(''name'', ''H'')] None
             [Element ''constant'' 9 [(''value'', ''true'')] None []],
           Element ''define-basic-event'' 10 [(''name'', ''A'')] None
             [Element ''bool'' 11 [(''value'', ''true'')] None []]]]"

section \<open>Properties\<close>

subsection \<open>Probability of a product\<close>

text \<open>
  Claim C9. The empty product (UNITY, no literal) has probability exactly 1, whatever
  the probabilities of the events are: a container holding only the empty product
  evaluates to the single value 1. No multiplication and no subtraction takes place,
  so this holds in the arithmetic of the machine as well.
\<close>

theorem Product_p_unity:
  "Product_p p [] = 1 \<and> map (Product_p p) [[]] = [1]"
  by (simp add: Product_p_def)

subsection \<open>Storing the products\<close>

text \<open>
  Claim C5. When \<open>Store\<close> receives the empty set of products it records the warning
  that the top event is NULL, and when it receives the base set (the empty product
  alone) it records the warning that the top event is UNITY. In both cases, in a debug
  build as in a release build and whatever the settings, it returns normally with the
  products stored: no assertion fails and nothing is thrown.
\<close>

theorem Store_special_cases:
  "(Zbdd_empty zbdd \<longrightarrow>
      Store ndebug zbdd graph fta =
        Inr (fta\<lparr>warnings := warnings fta @ [''The top event is NULL. Success is guaranteed.''],
                 products := Some []\<rparr>))
   \<and> (Zbdd_base zbdd \<longrightarrow>
      Store ndebug zbdd graph fta =
        Inr (fta\<lparr>warnings := warnings fta @ [''The top event is UNITY. Failure is guaranteed.''],
                 products := Some [[]]\<rparr>))"
  by (simp add: Store_def Zbdd_empty_def Zbdd_base_def AddWarning_def ProductContainer_def
      Print_def Let_def)

theorem Store_special_cases_witness:
  "Zbdd_empty ([] :: string Zbdd)
   \<and> Store False ([] :: string Zbdd) ()
         \<lparr>settings = \<lparr>limit_order = 20, print = True\<rparr>, warnings = [], products = None\<rparr>
       = Inr \<lparr>settings = \<lparr>limit_order = 20, print = True\<rparr>,
              warnings = [''The top event is NULL. Success is guaranteed.''],
              products = Some []\<rparr>
   \<and> Zbdd_base ([[]] :: string Zbdd)
   \<and> Store False ([[]] :: string Zbdd) ()
         \<lparr>settings = \<lparr>limit_order = 20, print = True\<rparr>, warnings = [], products = None\<rparr>
       = Inr \<lparr>settings = \<lparr>limit_order = 20, print = True\<rparr>,
              warnings = [''The top event is UNITY. Failure is guaranteed.''],
              products = Some [[]]\<rparr>"
proof -
  let ?fta = "\<lparr>settings = \<lparr>limit_order = 20, print = True\<rparr>, warnings = [],
               products = None :: string ProductContainer option\<rparr>"
  have e: "Zbdd_empty ([] :: string Zbdd)" by (simp add: Zbdd_empty_def)
  have b: "Zbdd_base ([[]] :: string Zbdd)" by (simp add: Zbdd_base_def)
  from Store_special_cases [of "[]" False "()" ?fta] Store_special_cases [of "[[]]" False "()" ?fta] e b
  show ?thesis by simp
qed

subsection \<open>The order of the stored products\<close>

lemma set_minimalize: "set (minimalize ps) \<subseteq> set ps"
  by (auto simp: minimalize_def)

lemma distinct_minimalize: "distinct ps \<Longrightarrow> distinct (minimalize ps)"
  by (simp add: minimalize_def)

lemma all_equal_distinct: "distinct xs \<Longrightarrow> a \<in> set xs \<Longrightarrow> \<forall>x\<in>set xs. x = a \<Longrightarrow> xs = [a]"
proof (cases xs)
  case Nil
  assume "a \<in> set xs" with Nil show ?thesis by simp
next
  case (Cons x ys)
  assume d: "distinct xs" and e: "\<forall>x\<in>set xs. x = a"
  from Cons e have x: "x = a" by simp
  have "ys = []"
  proof (cases ys)
    case Nil then show ?thesis .
  next
    case (Cons y zs)
    with \<open>xs = x # ys\<close> e have "y = a" by simp
    with Cons \<open>xs = x # ys\<close> d x show ?thesis by simp
  qed
  with Cons x show ?thesis by simp
qed

lemma unity_alone_minimalize:
  assumes "distinct ps"
  shows "unity_alone (minimalize ps)"
proof (cases "[] \<in> set (minimalize ps)")
  case False
  then show ?thesis by (simp add: unity_alone_def)
next
  case True
  then have e: "[] \<in> set ps" using set_minimalize by blast
  have "\<forall>p\<in>set (minimalize ps). p = []"
  proof
    fix p assume "p \<in> set (minimalize ps)"
    then have "\<not> list_ex (\<lambda>q. set q \<subset> set p) ps" by (simp add: minimalize_def)
    with e have "\<not> set [] \<subset> set p" unfolding list_ex_iff by blast
    then show "p = []" by auto
  qed
  with True distinct_minimalize [OF assms] have "minimalize ps = [[]]"
    using all_equal_distinct [of "minimalize ps" "[]"] by blast
  then show ?thesis by (simp add: unity_alone_def)
qed

lemma combine_products_bound: "p \<in> set (combine_products L ps qs) \<Longrightarrow> length p \<le> L"
  using set_minimalize by (fastforce simp: combine_products_def)

lemma combine_products_shape:
  "distinct (combine_products L ps qs) \<and> unity_alone (combine_products L ps qs)"
  unfolding combine_products_def
  by (intro conjI distinct_minimalize unity_alone_minimalize) simp_all

lemma union_products_set: "set (union_products ps qs) \<subseteq> set ps \<union> set qs"
  using set_minimalize by (fastforce simp: union_products_def)

lemma union_products_shape:
  "distinct qs \<Longrightarrow> distinct (union_products ps qs) \<and> unity_alone (union_products ps qs)"
  unfolding union_products_def
  by (intro conjI distinct_minimalize unity_alone_minimalize) simp_all

lemma fold_union_well_formed:
  "well_formed L acc \<Longrightarrow> list_all (\<lambda>c. well_formed L (f c)) cs \<Longrightarrow>
     well_formed L (fold (\<lambda>c acc. union_products acc (f c)) cs acc)"
proof (induction cs arbitrary: acc)
  case Nil
  then show ?case by simp
next
  case (Cons c cs)
  from Cons.prems have a: "well_formed L acc" and c: "well_formed L (f c)"
    and cs: "list_all (\<lambda>c. well_formed L (f c)) cs" by simp_all
  have "well_formed L (union_products acc (f c))"
    using a c union_products_set [of acc "f c"] union_products_shape [of "f c" acc]
    by (auto simp: well_formed_def list_all_iff)
  from Cons.IH [OF this cs] show ?case by simp
qed

lemma fold_combine_well_formed:
  "well_formed L acc \<Longrightarrow>
     well_formed L (fold (\<lambda>c acc. combine_products L acc (f c)) cs acc)"
proof (induction cs arbitrary: acc)
  case Nil
  then show ?case by simp
next
  case (Cons c cs)
  have "well_formed L (combine_products L acc (f c))"
    using combine_products_bound [of _ L acc "f c"] combine_products_shape [of L acc "f c"]
    by (auto simp: well_formed_def list_all_iff)
  from Cons.IH [OF this] show ?case by simp
qed

lemma products_of_well_formed: "1 \<le> L \<Longrightarrow> well_formed L (products_of L n)"
proof (induction n)
  case (Lit l)
  then show ?case by (simp add: well_formed_def unity_alone_def)
next
  case (OR cs)
  have "well_formed L ([] :: 'a Product list)" by (simp add: well_formed_def unity_alone_def)
  moreover have "list_all (\<lambda>c. well_formed L (products_of L c)) cs"
    using OR by (simp add: list_all_iff)
  ultimately show ?case using fold_union_well_formed [of L "[]" "products_of L" cs] by simp
next
  case (AND cs)
  have "well_formed L ([[]] :: 'a Product list)" by (simp add: well_formed_def unity_alone_def)
  then show ?case using fold_combine_well_formed [of L "[[]]" "products_of L" cs] by simp
qed

lemma Print_unity_alone: "unity_alone container \<Longrightarrow> Print container = Inr ()"
  by (cases container) (auto simp: Print_def unity_alone_def list_ex_iff split: if_splits)

lemma Store_well_formed:
  assumes "well_formed (limit_order (settings fta)) zbdd"
  shows "\<exists>fta'. Store ndebug zbdd graph fta = Inr fta' \<and> products fta' = Some zbdd
           \<and> settings fta' = settings fta"
  using assms Print_unity_alone [of zbdd]
  by (auto simp: Store_def Let_def well_formed_def AddWarning_def ProductContainer_def
      list_all_iff list_ex_iff)

lemma Store_debug_bound:
  "Store False zbdd graph fta = Inr fta' \<Longrightarrow>
     products fta' = Some zbdd \<and> list_all (\<lambda>P. length P \<le> limit_order (settings fta')) zbdd"
  by (auto simp: Store_def Let_def AddWarning_def ProductContainer_def
      list_all_iff list_ex_iff split: if_splits sum.splits)

text \<open>
  Claim C6. Every product of the stored container has at most \<open>limit_order\<close>
  literals. For the products computed by the engine (modelled from the spec) with an
  order limit of at least 1, \<open>Store\<close> completes in every build and stores exactly
  these products, each within the limit. Besides, whatever set a debug build is handed,
  its assertion lets \<open>Store\<close> complete only if every product is within the limit.
\<close>

theorem stored_products_within_limit_order:
  "(1 \<le> limit_order (settings fta) \<longrightarrow>
      (\<exists>fta'. Store ndebug (products_of (limit_order (settings fta)) top_node) graph fta = Inr fta'
         \<and> products fta' = Some (products_of (limit_order (settings fta)) top_node)
         \<and> (\<forall>P \<in> set (products_of (limit_order (settings fta)) top_node).
               length P \<le> limit_order (settings fta'))))
   \<and> (\<forall>fta' container. Store False zbdd graph fta = Inr fta' \<longrightarrow> products fta' = Some container \<longrightarrow>
         (\<forall>P \<in> set container. length P \<le> limit_order (settings fta')))"
proof (intro conjI impI allI)
  assume "1 \<le> limit_order (settings fta)"
  then have wf: "well_formed (limit_order (settings fta)) (products_of (limit_order (settings fta)) top_node)"
    by (rule products_of_well_formed)
  from Store_well_formed [OF wf, of ndebug graph] wf
  show "\<exists>fta'. Store ndebug (products_of (limit_order (settings fta)) top_node) graph fta = Inr fta'
         \<and> products fta' = Some (products_of (limit_order (settings fta)) top_node)
         \<and> (\<forall>P \<in> set (products_of (limit_order (settings fta)) top_node).
               length P \<le> limit_order (settings fta'))"
    by (auto simp: well_formed_def list_all_iff)
next
  fix fta' container
  assume "Store False zbdd graph fta = Inr fta'" "products fta' = Some container"
  with Store_debug_bound [of zbdd graph fta fta']
  show "\<forall>P \<in> set container. length P \<le> limit_order (settings fta')"
    by (auto simp: list_all_iff)
qed


theorem stored_products_within_limit_order_witness:
  "1 \<le> limit_order (settings \<lparr>settings = \<lparr>limit_order = 2, print = True\<rparr>, warnings = [], products = None\<rparr>)
   \<and> products_of 2 (AND [Lit \<lparr>complement = False, event = ''a''\<rparr>,
                          OR [Lit \<lparr>complement = False, event = ''b''\<rparr>,
                              Lit \<lparr>complement = True, event = ''a''\<rparr>]])
       = [[\<lparr>complement = False, event = ''a''\<rparr>, \<lparr>complement = False, event = ''b''\<rparr>]]
   \<and> (\<exists>fta'. Store False
           (products_of 2 (AND [Lit \<lparr>complement = False, event = ''a''\<rparr>,
                          OR [Lit \<lparr>complement = False, event = ''b''\<rparr>,
                              Lit \<lparr>complement = True, event = ''a''\<rparr>]])) ()
           \<lparr>settings = \<lparr>limit_order = 2, print = True\<rparr>, warnings = [], products = None\<rparr>
           = Inr fta'
         \<and> products fta'
             = Some [[\<lparr>complement = False, event = ''a''\<rparr>, \<lparr>complement = False, event = ''b''\<rparr>]]
         \<and> limit_order (settings fta') = 2)"
proof -
  let ?fta = "\<lparr>settings = \<lparr>limit_order = 2, print = True\<rparr>, warnings = [],
               products = None :: string ProductContainer option\<rparr>"
  let ?n = "AND [Lit \<lparr>complement = False, event = ''a''\<rparr>,
                 OR [Lit \<lparr>complement = False, event = ''b''\<rparr>,
                     Lit \<lparr>complement = True, event = ''a''\<rparr>]]"
  have h: "1 \<le> limit_order (settings ?fta)" by simp
  have p: "products_of 2 ?n
       = [[\<lparr>complement = False, event = ''a''\<rparr>, \<lparr>complement = False, event = ''b''\<rparr>]]"
    by code_simp
  have s: "Store False [[\<lparr>complement = False, event = ''a''\<rparr>, \<lparr>complement = False, event = ''b''\<rparr>]] ()
             ?fta = Inr (?fta\<lparr>products := Some [[\<lparr>complement = False, event = ''a''\<rparr>, \<lparr>complement = False, event = ''b''\<rparr>]]\<rparr>)"
    by (simp add: Store_def Zbdd_empty_def Zbdd_base_def ProductContainer_def Print_def)
  from stored_products_within_limit_order [of ?fta False ?n "()" "[]"] h p s
  show ?thesis by simp
qed

subsection \<open>The mission time\<close>

text \<open>
  Claim C10. Whatever value the mission time holds, \<open>Min()\<close> is 0, \<open>Mean()\<close> is the
  held value, \<open>Sample()\<close> returns the held value and leaves the object as it was (so
  sampling again gives the same number), and \<open>IsDeviate()\<close> is false; after a
  successful \<open>value(time)\<close> the held value is \<open>time\<close>.
\<close>

theorem MissionTime_contracts:
  "MissionTime_Min mt = 0
   \<and> MissionTime_Mean mt = time_value mt
   \<and> MissionTime_Sample mt = (time_value mt, mt)
   \<and> fst (MissionTime_Sample (snd (MissionTime_Sample mt))) = fst (MissionTime_Sample mt)
   \<and> \<not> MissionTime_IsDeviate mt
   \<and> (\<forall>time mt'. MissionTime_value time mt = Inr mt' \<longrightarrow>
          MissionTime_Min mt' = 0 \<and> MissionTime_Mean mt' = time
          \<and> fst (MissionTime_Sample mt') = time \<and> \<not> MissionTime_IsDeviate mt')"
  by (auto simp: MissionTime_Min_def MissionTime_Mean_def MissionTime_Sample_def
      MissionTime_DoSample_def MissionTime_IsDeviate_def MissionTime_value_def split: if_splits)

theorem MissionTime_contracts_witness:
  "MissionTime_value 8760 \<lparr>time_unit = kHours, time_value = 0\<rparr>
     = Inr \<lparr>time_unit = kHours, time_value = 8760\<rparr>
   \<and> MissionTime_Min \<lparr>time_unit = kHours, time_value = 8760\<rparr> = 0
   \<and> MissionTime_Mean \<lparr>time_unit = kHours, time_value = 8760\<rparr> = 8760
   \<and> fst (MissionTime_Sample \<lparr>time_unit = kHours, time_value = 8760\<rparr>) = 8760
   \<and> \<not> MissionTime_IsDeviate \<lparr>time_unit = kHours, time_value = 8760\<rparr>"
proof -
  have h: "MissionTime_value 8760 \<lparr>time_unit = kHours, time_value = 0\<rparr>
     = Inr \<lparr>time_unit = kHours, time_value = 8760\<rparr>"
    by (simp add: MissionTime_value_def)
  from MissionTime_contracts [of "\<lparr>time_unit = kHours, time_value = 0\<rparr>"] h
  show ?thesis by blast
qed

subsection \<open>Arity of gates\<close>








subsection \<open>The diagnostics of the first layer\<close>

lemma mentions_append_left: "mentions a x \<Longrightarrow> mentions (a @ b) x"
  unfolding mentions_def sublist_def by (metis append.assoc)

lemma mentions_append_right: "mentions b x \<Longrightarrow> mentions (a @ b) x"
  unfolding mentions_def sublist_def by (metis append.assoc)

lemma mentions_self: "mentions x x"
  by (simp add: mentions_def)

lemma mentions_Nil: "mentions msg []"
  by (simp add: mentions_def)

lemma mentions_concat_map: "x \<in> set xs \<Longrightarrow> mentions (concat (map f xs)) (f x)"
proof -
  assume "x \<in> set xs"
  then obtain ys zs where "xs = ys @ x # zs" by (meson split_list)
  then show ?thesis by (simp add: mentions_def)
qed

lemma mentions_listing:
  "x \<in> set xs \<Longrightarrow> mentions (if xs \<noteq> [] then a @ b @ c @ concat (map f xs) else []) (f x)"
proof -
  assume x: "x \<in> set xs"
  then have "xs \<noteq> []" by auto
  moreover have "mentions (a @ b @ c @ concat (map f xs)) (f x)"
    by (intro mentions_append_right mentions_concat_map x)
  ultimately show ?thesis by simp
qed

lemma those_map_present:
  "list_all (\<lambda>x. f x \<noteq> None) xs \<Longrightarrow> those (map f xs) = Some (map (\<lambda>x. the (f x)) xs)"
  by (induction xs) auto

lemma CheckMissingEvents_text:
  assumes "list_all (\<lambda>entry. map_count (tbd_orig_ids s) (fst entry)) (tbd_events s)"
  shows "\<exists>text. CheckMissingEvents s = Inr text
           \<and> (text = [] \<longleftrightarrow> tbd_house_events s = [] \<and> tbd_basic_events s = [] \<and> tbd_events s = [])
           \<and> list_all (\<lambda>entry. mentions text (orig_id_of s (snd entry) @ endl)) (tbd_house_events s)
           \<and> list_all (\<lambda>entry. mentions text (orig_id_of s (snd entry) @ endl)) (tbd_basic_events s)
           \<and> list_all (\<lambda>entry. \<exists>orig. map_of (tbd_orig_ids s) (fst entry) = Some orig
                                  \<and> mentions text (orig @ endl)) (tbd_events s)"
proof -
  let ?house = "if tbd_house_events s \<noteq> [] then
               endl @ ''Missing definitions for House events:'' @ endl
               @ concat (map (\<lambda>entry. orig_id_of s (snd entry) @ endl) (tbd_house_events s))
             else []"
  let ?basic = "if tbd_basic_events s \<noteq> [] then
               endl @ ''Missing definitions for Basic events:'' @ endl
               @ concat (map (\<lambda>entry. orig_id_of s (snd entry) @ endl) (tbd_basic_events s))
             else []"
  let ?f = "\<lambda>entry :: string \<times> addr list. map_of (tbd_orig_ids s) (fst entry)"
  let ?origs = "map (\<lambda>x. the (?f x)) (tbd_events s)"
  let ?untyped = "if tbd_events s \<noteq> [] then
               endl @ ''Missing definitions for Untyped events:'' @ endl
               @ concat (map (\<lambda>orig. orig @ endl) ?origs)
             else []"
  from assms have p: "list_all (\<lambda>x. ?f x \<noteq> None) (tbd_events s)"
    by (simp add: map_count_def)
  have th: "those (map ?f (tbd_events s)) = Some ?origs"
    using those_map_present [OF p] .
  have r: "CheckMissingEvents s = Inr (?house @ ?basic @ ?untyped)"
    by (simp add: CheckMissingEvents_def Let_def th del: append_assoc)
  have e: "(?house @ ?basic @ ?untyped = [])
      \<longleftrightarrow> tbd_house_events s = [] \<and> tbd_basic_events s = [] \<and> tbd_events s = []"
    by (simp add: endl_def)
  have h: "\<forall>entry\<in>set (tbd_house_events s). mentions ?house (orig_id_of s (snd entry) @ endl)"
    using mentions_listing [where f = "\<lambda>entry. orig_id_of s (snd entry) @ endl"
        and xs = "tbd_house_events s"] by blast
  have b: "\<forall>entry\<in>set (tbd_basic_events s). mentions ?basic (orig_id_of s (snd entry) @ endl)"
    using mentions_listing [where f = "\<lambda>entry. orig_id_of s (snd entry) @ endl"
        and xs = "tbd_basic_events s"] by blast
  have u: "\<forall>entry\<in>set (tbd_events s). \<exists>orig. ?f entry = Some orig \<and> mentions ?untyped (orig @ endl)"
  proof
    fix entry assume m: "entry \<in> set (tbd_events s)"
    with p obtain orig where o: "?f entry = Some orig" by (auto simp: list_all_iff)
    from m have "the (?f entry) \<in> set ?origs" by simp
    with o have i: "orig \<in> set ?origs" by simp
    from m have n: "tbd_events s \<noteq> []" by auto
    have "mentions (if ?origs \<noteq> [] then endl @ ''Missing definitions for Untyped events:'' @ endl
               @ concat (map (\<lambda>orig. orig @ endl) ?origs) else []) (orig @ endl)"
      using mentions_listing [OF i, where f = "\<lambda>orig. orig @ endl"] .
    with n have "mentions ?untyped (orig @ endl)" by simp
    with o show "\<exists>orig. ?f entry = Some orig \<and> mentions ?untyped (orig @ endl)" by blast
  qed
  have e': "(?house @ ?basic @ ?untyped = [])
      \<longleftrightarrow> tbd_house_events s = [] \<and> tbd_basic_events s = [] \<and> tbd_events s = []"
    using e by blast
  have h': "list_all (\<lambda>entry. mentions (?house @ ?basic @ ?untyped) (orig_id_of s (snd entry) @ endl))
              (tbd_house_events s)"
    unfolding list_all_iff using h by (blast intro: mentions_append_left)
  have b': "list_all (\<lambda>entry. mentions (?house @ ?basic @ ?untyped) (orig_id_of s (snd entry) @ endl))
              (tbd_basic_events s)"
    unfolding list_all_iff using b by (blast intro: mentions_append_left mentions_append_right)
  have u': "list_all (\<lambda>entry. \<exists>orig. ?f entry = Some orig
              \<and> mentions (?house @ ?basic @ ?untyped) (orig @ endl)) (tbd_events s)"
    unfolding list_all_iff using u by (blast intro: mentions_append_right)
  from r e' h' b' u' show ?thesis by blast
qed


lemma CheckMissingParameters_mentions:
  "list_all (\<lambda>entry. mentions (CheckMissingParameters s) (fst entry @ endl)) (tbd_parameters s)"
  unfolding list_all_iff CheckMissingParameters_def
  using mentions_listing [where f = "\<lambda>entry. fst entry @ endl" and xs = "tbd_parameters s"]
  by blast

lemma CheckMissingParameters_empty: "CheckMissingParameters s = [] \<longleftrightarrow> tbd_parameters s = []"
  by (simp add: CheckMissingParameters_def endl_def)

lemma CheckAllGates_mentions:
  "list_all (\<lambda>entry. case events_store s (snd entry) of
                       None \<Rightarrow> True
                     | Some g \<Rightarrow> mentions (CheckAllGates s) (CheckGate s g)) (gates s)"
  unfolding list_all_iff
proof
  fix entry assume m: "entry \<in> set (gates s)"
  show "case events_store s (snd entry) of
          None \<Rightarrow> True
        | Some g \<Rightarrow> mentions (CheckAllGates s) (CheckGate s g)"
  proof (cases "events_store s (snd entry)")
    case None
    then show ?thesis by simp
  next
    case (Some g)
    from mentions_concat_map [OF m, of "\<lambda>entry. case events_store s (snd entry) of
                             None \<Rightarrow> []
                           | Some g \<Rightarrow> CheckGate s g"] Some
    show ?thesis by (simp add: CheckAllGates_def)
  qed
qed

text \<open>
  Claim C4, amended. \<open>CheckFirstLayer\<close> gathers its diagnostics in one message and
  throws one \<open>ValidationError\<close> with it if it is not empty (otherwise it goes on to
  validate the expressions). The message always lists every undefined gate and the
  diagnostic of every defined gate. It lists the events and the parameters that miss a
  definition only if probabilities were requested; if not, it consists of the first
  two parts alone.
\<close>

theorem CheckFirstLayer_accumulates:
  "list_all (\<lambda>entry. map_count (tbd_orig_ids s) (fst entry)) (tbd_events s) \<longrightarrow>
   (\<exists>msg.
      CheckFirstLayer ms s
        = (if msg = [] then ValidateExpressions ms s else (Inl (ValidationError msg), s))
      \<and> (msg = [] \<longleftrightarrow>
           tbd_gates s = [] \<and> CheckAllGates s = []
           \<and> (prob_requested s \<longrightarrow>
                tbd_house_events s = [] \<and> tbd_basic_events s = [] \<and> tbd_events s = []
                \<and> tbd_parameters s = []))
      \<and> list_all (\<lambda>entry. mentions msg (orig_id_of s (snd entry) @ endl)) (tbd_gates s)
      \<and> list_all (\<lambda>entry. case events_store s (snd entry) of
                             None \<Rightarrow> True
                           | Some g \<Rightarrow> mentions msg (CheckGate s g)) (gates s)
      \<and> (prob_requested s \<longrightarrow>
            list_all (\<lambda>entry. mentions msg (orig_id_of s (snd entry) @ endl)) (tbd_house_events s)
            \<and> list_all (\<lambda>entry. mentions msg (orig_id_of s (snd entry) @ endl)) (tbd_basic_events s)
            \<and> list_all (\<lambda>entry. \<exists>orig. map_of (tbd_orig_ids s) (fst entry) = Some orig
                                   \<and> mentions msg (orig @ endl)) (tbd_events s)
            \<and> list_all (\<lambda>entry. mentions msg (fst entry @ endl)) (tbd_parameters s))
      \<and> (\<not> prob_requested s \<longrightarrow>
            msg = (if tbd_gates s \<noteq> [] then
                     ''Undefined gates:'' @ endl
                     @ concat (map (\<lambda>entry. orig_id_of s (snd entry) @ endl) (tbd_gates s))
                   else [])
                  @ (if CheckAllGates s \<noteq> [] then
                       endl @ ''There are problems with the initialized gates:'' @ endl
                       @ CheckAllGates s
                     else [])))"
proof
  assume a: "list_all (\<lambda>entry. map_count (tbd_orig_ids s) (fst entry)) (tbd_events s)"
  define U where "U = (if tbd_gates s \<noteq> [] then
                     ''Undefined gates:'' @ endl
                     @ concat (map (\<lambda>entry. orig_id_of s (snd entry) @ endl) (tbd_gates s))
                   else [])"
  define P where "P = (if CheckAllGates s \<noteq> [] then
                       endl @ ''There are problems with the initialized gates:'' @ endl
                       @ CheckAllGates s
                     else [])"
  from CheckMissingEvents_text [OF a] obtain missing where
    t: "CheckMissingEvents s = Inr missing"
    and te: "missing = [] \<longleftrightarrow> tbd_house_events s = [] \<and> tbd_basic_events s = [] \<and> tbd_events s = []"
    and th: "list_all (\<lambda>entry. mentions missing (orig_id_of s (snd entry) @ endl)) (tbd_house_events s)"
    and tb: "list_all (\<lambda>entry. mentions missing (orig_id_of s (snd entry) @ endl)) (tbd_basic_events s)"
    and tu: "list_all (\<lambda>entry. \<exists>orig. map_of (tbd_orig_ids s) (fst entry) = Some orig
                                  \<and> mentions missing (orig @ endl)) (tbd_events s)"
    by blast
  define M where "M = (if prob_requested s then missing @ CheckMissingParameters s else [])"
  define msg where "msg = U @ P @ M"
  have run: "CheckFirstLayer ms s
        = (if msg = [] then ValidateExpressions ms s else (Inl (ValidationError msg), s))"
    by (simp add: CheckFirstLayer_def bind_def get_def throw_def return_def Let_def t
        msg_def U_def P_def M_def)
  have Ue: "U = [] \<longleftrightarrow> tbd_gates s = []" by (simp add: U_def endl_def)
  have Pe: "P = [] \<longleftrightarrow> CheckAllGates s = []" by (simp add: P_def endl_def)
  have Me: "M = [] \<longleftrightarrow> (prob_requested s \<longrightarrow>
                tbd_house_events s = [] \<and> tbd_basic_events s = [] \<and> tbd_events s = []
                \<and> tbd_parameters s = [])"
    using te by (simp add: M_def CheckMissingParameters_empty)
  have empty: "msg = [] \<longleftrightarrow>
           tbd_gates s = [] \<and> CheckAllGates s = []
           \<and> (prob_requested s \<longrightarrow>
                tbd_house_events s = [] \<and> tbd_basic_events s = [] \<and> tbd_events s = []
                \<and> tbd_parameters s = [])"
    unfolding msg_def append_is_Nil_conv Ue Pe Me ..
  have inU: "\<And>x. mentions U x \<Longrightarrow> mentions msg x"
    unfolding msg_def by (rule mentions_append_left)
  have inP: "\<And>x. mentions P x \<Longrightarrow> mentions msg x"
    unfolding msg_def by (rule mentions_append_right, rule mentions_append_left)
  have inM: "\<And>x. mentions M x \<Longrightarrow> mentions msg x"
    unfolding msg_def by (rule mentions_append_right, rule mentions_append_right)
  have mU: "\<forall>entry\<in>set (tbd_gates s). mentions U (orig_id_of s (snd entry) @ endl)"
  proof
    fix entry assume e: "entry \<in> set (tbd_gates s)"
    then have n: "tbd_gates s \<noteq> []" by auto
    have "mentions (''Undefined gates:'' @ endl
                     @ concat (map (\<lambda>entry. orig_id_of s (snd entry) @ endl) (tbd_gates s)))
            (orig_id_of s (snd entry) @ endl)"
      by (intro mentions_append_right
          mentions_concat_map [OF e, of "\<lambda>entry. orig_id_of s (snd entry) @ endl"])
    with n show "mentions U (orig_id_of s (snd entry) @ endl)" unfolding U_def by simp
  qed
  have undefined: "list_all (\<lambda>entry. mentions msg (orig_id_of s (snd entry) @ endl)) (tbd_gates s)"
    unfolding list_all_iff using mU inU by blast
  have mP: "\<And>g. mentions (CheckAllGates s) (CheckGate s g) \<Longrightarrow> mentions P (CheckGate s g)"
  proof -
    fix g assume m: "mentions (CheckAllGates s) (CheckGate s g)"
    show "mentions P (CheckGate s g)"
    proof (cases "CheckAllGates s = []")
      case True
      with m show ?thesis by (simp add: mentions_def)
    next
      case False
      have "mentions (endl @ ''There are problems with the initialized gates:'' @ endl
                       @ CheckAllGates s) (CheckGate s g)"
        by (intro mentions_append_right m)
      with False show ?thesis unfolding P_def by simp
    qed
  qed
  have problems: "list_all (\<lambda>entry. case events_store s (snd entry) of
                             None \<Rightarrow> True
                           | Some g \<Rightarrow> mentions msg (CheckGate s g)) (gates s)"
    unfolding list_all_iff
  proof
    fix entry assume e: "entry \<in> set (gates s)"
    show "case events_store s (snd entry) of
            None \<Rightarrow> True
          | Some g \<Rightarrow> mentions msg (CheckGate s g)"
    proof (cases "events_store s (snd entry)")
      case None
      then show ?thesis by simp
    next
      case (Some g)
      from CheckAllGates_mentions [of s] e Some
      have "mentions (CheckAllGates s) (CheckGate s g)" by (auto simp: list_all_iff)
      from inP [OF mP [OF this]] Some show ?thesis by simp
    qed
  qed
  have missing_events: "prob_requested s \<longrightarrow>
            list_all (\<lambda>entry. mentions msg (orig_id_of s (snd entry) @ endl)) (tbd_house_events s)
            \<and> list_all (\<lambda>entry. mentions msg (orig_id_of s (snd entry) @ endl)) (tbd_basic_events s)
            \<and> list_all (\<lambda>entry. \<exists>orig. map_of (tbd_orig_ids s) (fst entry) = Some orig
                                   \<and> mentions msg (orig @ endl)) (tbd_events s)
            \<and> list_all (\<lambda>entry. mentions msg (fst entry @ endl)) (tbd_parameters s)"
  proof
    assume p: "prob_requested s"
    then have Meq: "M = missing @ CheckMissingParameters s" by (simp add: M_def)
    have l: "\<And>x. mentions missing x \<Longrightarrow> mentions msg x"
      by (rule inM) (simp only: Meq mentions_append_left)
    have r: "\<And>x. mentions (CheckMissingParameters s) x \<Longrightarrow> mentions msg x"
      by (rule inM) (simp only: Meq mentions_append_right)
    show "list_all (\<lambda>entry. mentions msg (orig_id_of s (snd entry) @ endl)) (tbd_house_events s)
            \<and> list_all (\<lambda>entry. mentions msg (orig_id_of s (snd entry) @ endl)) (tbd_basic_events s)
            \<and> list_all (\<lambda>entry. \<exists>orig. map_of (tbd_orig_ids s) (fst entry) = Some orig
                                   \<and> mentions msg (orig @ endl)) (tbd_events s)
            \<and> list_all (\<lambda>entry. mentions msg (fst entry @ endl)) (tbd_parameters s)"
      using th tb tu CheckMissingParameters_mentions [of s] unfolding list_all_iff
      by (blast intro: l r)
  qed
  have alone: "\<not> prob_requested s \<longrightarrow>
            msg = (if tbd_gates s \<noteq> [] then
                     ''Undefined gates:'' @ endl
                     @ concat (map (\<lambda>entry. orig_id_of s (snd entry) @ endl) (tbd_gates s))
                   else [])
                  @ (if CheckAllGates s \<noteq> [] then
                       endl @ ''There are problems with the initialized gates:'' @ endl
                       @ CheckAllGates s
                     else [])"
    by (simp add: msg_def U_def P_def M_def)
  from run empty undefined problems missing_events alone
  show "(\<exists>msg.
      CheckFirstLayer ms s
        = (if msg = [] then ValidateExpressions ms s else (Inl (ValidationError msg), s))
      \<and> (msg = [] \<longleftrightarrow>
           tbd_gates s = [] \<and> CheckAllGates s = []
           \<and> (prob_requested s \<longrightarrow>
                tbd_house_events s = [] \<and> tbd_basic_events s = [] \<and> tbd_events s = []
                \<and> tbd_parameters s = []))
      \<and> list_all (\<lambda>entry. mentions msg (orig_id_of s (snd entry) @ endl)) (tbd_gates s)
      \<and> list_all (\<lambda>entry. case events_store s (snd entry) of
                             None \<Rightarrow> True
                           | Some g \<Rightarrow> mentions msg (CheckGate s g)) (gates s)
      \<and> (prob_requested s \<longrightarrow>
            list_all (\<lambda>entry. mentions msg (orig_id_of s (snd entry) @ endl)) (tbd_house_events s)
            \<and> list_all (\<lambda>entry. mentions msg (orig_id_of s (snd entry) @ endl)) (tbd_basic_events s)
            \<and> list_all (\<lambda>entry. \<exists>orig. map_of (tbd_orig_ids s) (fst entry) = Some orig
                                   \<and> mentions msg (orig @ endl)) (tbd_events s)
            \<and> list_all (\<lambda>entry. mentions msg (fst entry @ endl)) (tbd_parameters s))
      \<and> (\<not> prob_requested s \<longrightarrow>
            msg = (if tbd_gates s \<noteq> [] then
                     ''Undefined gates:'' @ endl
                     @ concat (map (\<lambda>entry. orig_id_of s (snd entry) @ endl) (tbd_gates s))
                   else [])
                  @ (if CheckAllGates s \<noteq> [] then
                       endl @ ''There are problems with the initialized gates:'' @ endl
                       @ CheckAllGates s
                     else [])))"
    by (intro exI [of _ msg] conjI)
qed

text \<open>
  The claim C4 as stated fails: in the first input the gate \<open>G2\<close> and the parameter
  \<open>lambda\<close> both miss their definition, no probability is requested, and the one
  validation error raised lists the undefined gate and does not mention the parameter.
\<close>

theorem CheckFirstLayer_skips_missing_parameter:
  "fst (ProcessInputFiles example_cast idle_methods [(''in.xml'', missing_parameter_example)]
          RiskAnalysis_init)
     = Inl (ValidationError (''Undefined gates:'' @ endl @ ''G2'' @ endl))
   \<and> \<not> prob_requested (before_validation missing_parameter_example)
   \<and> map fst (tbd_gates (before_validation missing_parameter_example)) = [''g2'']
   \<and> map fst (tbd_parameters (before_validation missing_parameter_example)) = [''lambda'']
   \<and> fst (CheckFirstLayer idle_methods (before_validation missing_parameter_example))
       = Inl (ValidationError (''Undefined gates:'' @ endl @ ''G2'' @ endl))
   \<and> \<not> mentions (''Undefined gates:'' @ endl @ ''G2'' @ endl) ''lambda''"
  unfolding before_validation_def
  by code_simp

theorem CheckFirstLayer_accumulates_witness:
  "list_all (\<lambda>entry. map_count (tbd_orig_ids (before_validation all_defects_example)) (fst entry))
     (tbd_events (before_validation all_defects_example))
   \<and> prob_requested (before_validation all_defects_example)
   \<and> (\<exists>msg. CheckFirstLayer idle_methods (before_validation all_defects_example)
              = (Inl (ValidationError msg), before_validation all_defects_example)
         \<and> mentions msg (''G2'' @ endl)
         \<and> mentions msg ''Top : XOR gate must have exactly 2 children.''
         \<and> mentions msg (''H'' @ endl)
         \<and> mentions msg (''B'' @ endl)
         \<and> mentions msg (''E'' @ endl)
         \<and> mentions msg (''lambda'' @ endl))"
proof -
  let ?s = "before_validation all_defects_example"
  have h: "list_all (\<lambda>entry. map_count (tbd_orig_ids ?s) (fst entry)) (tbd_events ?s)"
    unfolding before_validation_def by code_simp
  have p: "prob_requested ?s"
    unfolding before_validation_def by code_simp
  have g: "map (\<lambda>entry. orig_id_of ?s (snd entry)) (tbd_gates ?s) = [''G2'']"
    unfolding before_validation_def by code_simp
  have c: "map (\<lambda>entry. map_option (CheckGate ?s) (events_store ?s (snd entry))) (gates ?s)
             = [Some (''Top : XOR gate must have exactly 2 children.'' @ endl)]"
    unfolding before_validation_def by code_simp
  have hs: "map (\<lambda>entry. orig_id_of ?s (snd entry)) (tbd_house_events ?s) = [''H'']"
    unfolding before_validation_def by code_simp
  have bs: "map (\<lambda>entry. orig_id_of ?s (snd entry)) (tbd_basic_events ?s) = [''B'']"
    unfolding before_validation_def by code_simp
  have es: "map (\<lambda>entry. map_of (tbd_orig_ids ?s) (fst entry)) (tbd_events ?s) = [Some ''E'']"
    unfolding before_validation_def by code_simp
  have ps: "map fst (tbd_parameters ?s) = [''lambda'']"
    unfolding before_validation_def by code_simp
  from CheckFirstLayer_accumulates [of ?s idle_methods] h p obtain msg where
    run: "CheckFirstLayer idle_methods ?s
        = (if msg = [] then ValidateExpressions idle_methods ?s else (Inl (ValidationError msg), ?s))"
    and empty: "msg = [] \<longleftrightarrow> tbd_gates ?s = [] \<and> CheckAllGates ?s = []
           \<and> (prob_requested ?s \<longrightarrow>
                tbd_house_events ?s = [] \<and> tbd_basic_events ?s = [] \<and> tbd_events ?s = []
                \<and> tbd_parameters ?s = [])"
    and mg: "list_all (\<lambda>entry. mentions msg (orig_id_of ?s (snd entry) @ endl)) (tbd_gates ?s)"
    and mc: "list_all (\<lambda>entry. case events_store ?s (snd entry) of
                             None \<Rightarrow> True
                           | Some g \<Rightarrow> mentions msg (CheckGate ?s g)) (gates ?s)"
    and mh: "list_all (\<lambda>entry. mentions msg (orig_id_of ?s (snd entry) @ endl)) (tbd_house_events ?s)"
    and mb: "list_all (\<lambda>entry. mentions msg (orig_id_of ?s (snd entry) @ endl)) (tbd_basic_events ?s)"
    and me: "list_all (\<lambda>entry. \<exists>orig. map_of (tbd_orig_ids ?s) (fst entry) = Some orig
                                   \<and> mentions msg (orig @ endl)) (tbd_events ?s)"
    and mp: "list_all (\<lambda>entry. mentions msg (fst entry @ endl)) (tbd_parameters ?s)"
    by blast
  from g have "tbd_gates ?s \<noteq> []" by auto
  with empty run have r: "CheckFirstLayer idle_methods ?s = (Inl (ValidationError msg), ?s)"
    by simp
  have "list_all (mentions msg) (map (\<lambda>x. x @ endl) (map (\<lambda>entry. orig_id_of ?s (snd entry)) (tbd_gates ?s)))"
    using mg by (simp add: list_all_iff)
  then have 1: "mentions msg (''G2'' @ endl)" unfolding g by simp
  have "list_all (\<lambda>x. case x of None \<Rightarrow> True | Some d \<Rightarrow> mentions msg d)
          (map (\<lambda>entry. map_option (CheckGate ?s) (events_store ?s (snd entry))) (gates ?s))"
    using mc by (auto simp: list_all_iff split: option.splits)
  then have "mentions msg (''Top : XOR gate must have exactly 2 children.'' @ endl)"
    unfolding c by simp
  then have 2: "mentions msg ''Top : XOR gate must have exactly 2 children.''"
    unfolding mentions_def sublist_def by (metis append.assoc)
  have "list_all (mentions msg) (map (\<lambda>x. x @ endl) (map (\<lambda>entry. orig_id_of ?s (snd entry)) (tbd_house_events ?s)))"
    using mh by (simp add: list_all_iff)
  then have 3: "mentions msg (''H'' @ endl)" unfolding hs by simp
  have "list_all (mentions msg) (map (\<lambda>x. x @ endl) (map (\<lambda>entry. orig_id_of ?s (snd entry)) (tbd_basic_events ?s)))"
    using mb by (simp add: list_all_iff)
  then have 4: "mentions msg (''B'' @ endl)" unfolding bs by simp
  have "list_all (\<lambda>x. \<exists>orig. x = Some orig \<and> mentions msg (orig @ endl))
          (map (\<lambda>entry. map_of (tbd_orig_ids ?s) (fst entry)) (tbd_events ?s))"
    using me by (simp add: list_all_iff)
  then have 5: "mentions msg (''E'' @ endl)" unfolding es by simp
  have "list_all (mentions msg) (map (\<lambda>x. x @ endl) (map fst (tbd_parameters ?s)))"
    using mp by (simp add: list_all_iff)
  then have 6: "mentions msg (''lambda'' @ endl)" unfolding ps by simp
  from h p r 1 2 3 4 5 6 show ?thesis by blast
qed

subsection \<open>Definitions with an id that is already bound\<close>

lemma suffix_Line: "suffix ending (Line node (a @ b @ ending))"
  unfolding Line_def suffix_def by (metis append.assoc)

lemma suffix_Line2: "suffix ending (Line node (b @ ending))"
  unfolding Line_def suffix_def by (metis append.assoc)

lemma conflict_gate:
  "IdentifierConflict (ValidationError (Line node (''The id '' @ orig @ '' is already assigned to a gate.'')))"
  unfolding IdentifierConflict_def error.case
  by (intro disjI1 suffix_Line)

lemma conflict_primary:
  "IdentifierConflict (ValidationError (Line node (''The id '' @ orig @ '' is already assigned to a primary event.'')))"
  unfolding IdentifierConflict_def error.case
  by (rule disjI2, rule disjI1, rule suffix_Line)

lemma conflict_house:
  "IdentifierConflict (ValidationError (Line node (''The id '' @ orig @ '' is already used by a house event.'')))"
  unfolding IdentifierConflict_def error.case
  by (rule disjI2, rule disjI2, rule disjI1, rule suffix_Line)

lemma conflict_basic:
  "IdentifierConflict (ValidationError (Line node (''The id '' @ orig @ '' is already used by a basic event.'')))"
  unfolding IdentifierConflict_def error.case
  by (rule disjI2, rule disjI2, rule disjI2, rule suffix_Line)

lemma duplicate_id:
  "DuplicateDefinition (ValidationError (Line node (''The id '' @ orig @ '' is doubly defined.'')))"
  unfolding DuplicateDefinition_def error.case by (rule suffix_Line)

lemma duplicate_gate:
  "DuplicateDefinition (ValidationError (Line node (orig @ '' gate is doubly defined.'')))"
proof -
  have "orig @ '' gate is doubly defined.'' = orig @ '' gate'' @ '' is doubly defined.''" by simp
  then show ?thesis
    unfolding DuplicateDefinition_def error.case by (simp only: suffix_Line)
qed

lemma GetBasicEvent_bound:
  "GetBasicEvent node s =
     (let orig = trim (get_attribute_value node ''name''); i = to_lower orig
      in if map_count (gates s) i \<or> map_count (tbd_gates s) i then
           (Inl (ValidationError
              (Line node (''The id '' @ orig @ '' is already assigned to a gate.''))), s)
         else if map_count (primary_events s) i then
           (Inl (ValidationError (Line node (''The id '' @ orig @ '' is doubly defined.''))), s)
         else if map_count (tbd_house_events s) i then
           (Inl (ValidationError
              (Line node (''The id '' @ orig @ '' is already used by a house event.''))), s)
         else GetBasicEvent node s)"
  by (simp add: GetBasicEvent_def Let_def bind_def get_def throw_def)

lemma DefineBasicEvent_bound:
  "DefineBasicEvent lc node s =
     (let orig = trim (get_attribute_value node ''name''); i = to_lower orig
      in if map_count (gates s) i \<or> map_count (tbd_gates s) i then
           (Inl (ValidationError
              (Line node (''The id '' @ orig @ '' is already assigned to a gate.''))), s)
         else if map_count (primary_events s) i then
           (Inl (ValidationError (Line node (''The id '' @ orig @ '' is doubly defined.''))), s)
         else if map_count (tbd_house_events s) i then
           (Inl (ValidationError
              (Line node (''The id '' @ orig @ '' is already used by a house event.''))), s)
         else DefineBasicEvent lc node s)"
proof -
  have "\<And>e. GetBasicEvent node s = (Inl e, s) \<Longrightarrow> DefineBasicEvent lc node s = (Inl e, s)"
    by (simp add: DefineBasicEvent_def Let_def bind_def)
  then show ?thesis
    using GetBasicEvent_bound [of node s] by (auto simp: Let_def split: if_splits)
qed

lemma DefineHouseEvent_bound:
  "DefineHouseEvent node s =
     (let orig = trim (get_attribute_value node ''name''); i = to_lower orig
      in if map_count (gates s) i \<or> map_count (tbd_gates s) i then
           (Inl (ValidationError
              (Line node (''The id '' @ orig @ '' is already assigned to a gate.''))), s)
         else if map_count (primary_events s) i then
           (Inl (ValidationError (Line node (''The id '' @ orig @ '' is doubly defined.''))), s)
         else if map_count (tbd_basic_events s) i then
           (Inl (ValidationError
              (Line node (''The id '' @ orig @ '' is already used by a basic event.''))), s)
         else DefineHouseEvent node s)"
  by (simp add: DefineHouseEvent_def Let_def bind_def get_def throw_def)

lemma DefineGate_bound:
  "DefineGate lc node ft s =
     (let orig = trim (get_attribute_value node ''name''); i = to_lower orig
      in if map_count (gates s) i then
           (Inl (ValidationError (Line node (orig @ '' gate is doubly defined.''))), s)
         else if map_count (primary_events s) i \<or> map_count (tbd_basic_events s) i
                 \<or> map_count (tbd_house_events s) i then
           (Inl (ValidationError
              (Line node (''The id '' @ orig @ '' is already assigned to a primary event.''))), s)
         else DefineGate lc node ft s)"
  by (simp add: DefineGate_def Let_def bind_def get_def throw_def)


text \<open>
  Claim C8, amended. With \<open>i\<close> the case-folded id of the definition:
  a basic-event or house-event definition fails with an identifier conflict when \<open>i\<close>
  is the id of a gate (defined or referred to as a gate) or of an event referred to as
  the other kind of primary event, and with a duplicate definition when \<open>i\<close> is the id
  of a defined primary event of either kind; a gate definition fails with a duplicate
  definition when \<open>i\<close> is the id of a defined gate and with an identifier conflict
  when it is the id of a primary event, defined or referred to. Each of these
  failures leaves the whole state, and so the existing definition, as it was.
\<close>

theorem definition_of_bound_id_fails:
  "(map_count (gates s) (to_lower (trim (get_attribute_value node ''name'')))
      \<or> map_count (tbd_gates s) (to_lower (trim (get_attribute_value node ''name''))) \<longrightarrow>
      (\<exists>e. DefineBasicEvent lc node s = (Inl e, s) \<and> IdentifierConflict e)
      \<and> (\<exists>e. DefineHouseEvent node s = (Inl e, s) \<and> IdentifierConflict e))
   \<and> (\<not> map_count (gates s) (to_lower (trim (get_attribute_value node ''name'')))
      \<and> \<not> map_count (tbd_gates s) (to_lower (trim (get_attribute_value node ''name'')))
      \<and> map_count (primary_events s) (to_lower (trim (get_attribute_value node ''name''))) \<longrightarrow>
      (\<exists>e. DefineBasicEvent lc node s = (Inl e, s) \<and> DuplicateDefinition e)
      \<and> (\<exists>e. DefineHouseEvent node s = (Inl e, s) \<and> DuplicateDefinition e))
   \<and> (\<not> map_count (gates s) (to_lower (trim (get_attribute_value node ''name'')))
      \<and> \<not> map_count (tbd_gates s) (to_lower (trim (get_attribute_value node ''name'')))
      \<and> \<not> map_count (primary_events s) (to_lower (trim (get_attribute_value node ''name''))) \<longrightarrow>
      (map_count (tbd_house_events s) (to_lower (trim (get_attribute_value node ''name''))) \<longrightarrow>
         (\<exists>e. DefineBasicEvent lc node s = (Inl e, s) \<and> IdentifierConflict e))
      \<and> (map_count (tbd_basic_events s) (to_lower (trim (get_attribute_value node ''name''))) \<longrightarrow>
         (\<exists>e. DefineHouseEvent node s = (Inl e, s) \<and> IdentifierConflict e)))
   \<and> (map_count (gates s) (to_lower (trim (get_attribute_value node ''name''))) \<longrightarrow>
      (\<exists>e. DefineGate lc node ft s = (Inl e, s) \<and> DuplicateDefinition e))
   \<and> (\<not> map_count (gates s) (to_lower (trim (get_attribute_value node ''name'')))
      \<and> (map_count (primary_events s) (to_lower (trim (get_attribute_value node ''name'')))
         \<or> map_count (tbd_basic_events s) (to_lower (trim (get_attribute_value node ''name'')))
         \<or> map_count (tbd_house_events s) (to_lower (trim (get_attribute_value node ''name'')))) \<longrightarrow>
      (\<exists>e. DefineGate lc node ft s = (Inl e, s) \<and> IdentifierConflict e))"
proof -
  let ?i = "to_lower (trim (get_attribute_value node ''name''))"
  let ?orig = "trim (get_attribute_value node ''name'')"
  have b1: "map_count (gates s) ?i \<or> map_count (tbd_gates s) ?i \<Longrightarrow>
      DefineBasicEvent lc node s = (Inl (ValidationError
              (Line node (''The id '' @ ?orig @ '' is already assigned to a gate.''))), s)"
    by (subst DefineBasicEvent_bound) (simp add: Let_def del: append_assoc)
  have h1: "map_count (gates s) ?i \<or> map_count (tbd_gates s) ?i \<Longrightarrow>
      DefineHouseEvent node s = (Inl (ValidationError
              (Line node (''The id '' @ ?orig @ '' is already assigned to a gate.''))), s)"
    by (subst DefineHouseEvent_bound) (simp add: Let_def)
  have b2: "\<not> map_count (gates s) ?i \<Longrightarrow> \<not> map_count (tbd_gates s) ?i \<Longrightarrow>
      map_count (primary_events s) ?i \<Longrightarrow>
      DefineBasicEvent lc node s = (Inl (ValidationError
              (Line node (''The id '' @ ?orig @ '' is doubly defined.''))), s)"
    by (subst DefineBasicEvent_bound) (simp add: Let_def)
  have h2: "\<not> map_count (gates s) ?i \<Longrightarrow> \<not> map_count (tbd_gates s) ?i \<Longrightarrow>
      map_count (primary_events s) ?i \<Longrightarrow>
      DefineHouseEvent node s = (Inl (ValidationError
              (Line node (''The id '' @ ?orig @ '' is doubly defined.''))), s)"
    by (subst DefineHouseEvent_bound) (simp add: Let_def)
  have b3: "\<not> map_count (gates s) ?i \<Longrightarrow> \<not> map_count (tbd_gates s) ?i \<Longrightarrow>
      \<not> map_count (primary_events s) ?i \<Longrightarrow> map_count (tbd_house_events s) ?i \<Longrightarrow>
      DefineBasicEvent lc node s = (Inl (ValidationError
              (Line node (''The id '' @ ?orig @ '' is already used by a house event.''))), s)"
    by (subst DefineBasicEvent_bound) (simp add: Let_def)
  have h3: "\<not> map_count (gates s) ?i \<Longrightarrow> \<not> map_count (tbd_gates s) ?i \<Longrightarrow>
      \<not> map_count (primary_events s) ?i \<Longrightarrow> map_count (tbd_basic_events s) ?i \<Longrightarrow>
      DefineHouseEvent node s = (Inl (ValidationError
              (Line node (''The id '' @ ?orig @ '' is already used by a basic event.''))), s)"
    by (subst DefineHouseEvent_bound) (simp add: Let_def)
  have g1: "map_count (gates s) ?i \<Longrightarrow>
      DefineGate lc node ft s
        = (Inl (ValidationError (Line node (?orig @ '' gate is doubly defined.''))), s)"
    by (subst DefineGate_bound) (simp add: Let_def)
  have g2: "\<not> map_count (gates s) ?i \<Longrightarrow>
      map_count (primary_events s) ?i \<or> map_count (tbd_basic_events s) ?i
        \<or> map_count (tbd_house_events s) ?i \<Longrightarrow>
      DefineGate lc node ft s = (Inl (ValidationError
              (Line node (''The id '' @ ?orig @ '' is already assigned to a primary event.''))), s)"
    by (subst DefineGate_bound) (simp add: Let_def)
  show ?thesis
    using b1 h1 b2 h2 b3 h3 g1 g2
      conflict_gate [of node ?orig] conflict_primary [of node ?orig]
      conflict_house [of node ?orig] conflict_basic [of node ?orig]
      duplicate_id [of node ?orig] duplicate_gate [of node ?orig]
    by metis
qed

text \<open>
  The claim C8 as stated fails: \<open>H\<close> is defined as a house event, and the definition
  of a basic event with the same id, an entity of a different kind, is refused as a
  duplicate definition and not as an identifier conflict.
\<close>

theorem basic_event_over_house_event_is_duplicate:
  "fst (ProcessInputFiles example_cast idle_methods [(''in.xml'', house_then_basic_example)]
          RiskAnalysis_init)
     = Inl (ValidationError
         (''In file '' @ [CHR 0x27] @ ''in.xml'' @ [CHR 0x27] @ '', ''
          @ ''Line 5:'' @ endl @ ''The id H is doubly defined.''))
   \<and> map_of (primary_events (before_validation house_example)) ''h'' = Some 0
   \<and> class_of (before_validation house_example) 0 = Some HouseEventClass
   \<and> fst (DefineBasicEvent example_cast (definition_node ''H'') (before_validation house_example))
       = Inl (ValidationError (''Line 5:'' @ endl @ ''The id H is doubly defined.''))
   \<and> DuplicateDefinition (ValidationError (''Line 5:'' @ endl @ ''The id H is doubly defined.''))
   \<and> \<not> IdentifierConflict (ValidationError (''Line 5:'' @ endl @ ''The id H is doubly defined.''))"
  unfolding before_validation_def
  by code_simp

theorem definition_of_bound_id_fails_witness:
  "map_count (gates (before_validation kinds_example)) ''top''
   \<and> (\<exists>e. DefineBasicEvent example_cast (definition_node ''TOP'') (before_validation kinds_example)
            = (Inl e, before_validation kinds_example) \<and> IdentifierConflict e)
   \<and> (\<exists>e. DefineHouseEvent (definition_node ''TOP'') (before_validation kinds_example)
            = (Inl e, before_validation kinds_example) \<and> IdentifierConflict e)
   \<and> (\<exists>e. DefineGate example_cast (definition_node ''TOP'') ''ft'' (before_validation kinds_example)
            = (Inl e, before_validation kinds_example) \<and> DuplicateDefinition e)
   \<and> map_count (primary_events (before_validation kinds_example)) ''a''
   \<and> (\<exists>e. DefineBasicEvent example_cast (definition_node ''A'') (before_validation kinds_example)
            = (Inl e, before_validation kinds_example) \<and> DuplicateDefinition e)
   \<and> (\<exists>e. DefineHouseEvent (definition_node ''A'') (before_validation kinds_example)
            = (Inl e, before_validation kinds_example) \<and> DuplicateDefinition e)
   \<and> (\<exists>e. DefineGate example_cast (definition_node ''A'') ''ft'' (before_validation kinds_example)
            = (Inl e, before_validation kinds_example) \<and> IdentifierConflict e)
   \<and> map_count (tbd_house_events (before_validation kinds_example)) ''hh''
   \<and> (\<exists>e. DefineBasicEvent example_cast (definition_node ''Hh'') (before_validation kinds_example)
            = (Inl e, before_validation kinds_example) \<and> IdentifierConflict e)
   \<and> map_count (tbd_basic_events (before_validation kinds_example)) ''b''
   \<and> (\<exists>e. DefineHouseEvent (definition_node ''B'') (before_validation kinds_example)
            = (Inl e, before_validation kinds_example) \<and> IdentifierConflict e)"
proof -
  let ?s = "before_validation kinds_example"
  have n: "to_lower (trim (get_attribute_value (definition_node ''TOP'') ''name'')) = ''top''"
    "to_lower (trim (get_attribute_value (definition_node ''A'') ''name'')) = ''a''"
    "to_lower (trim (get_attribute_value (definition_node ''Hh'') ''name'')) = ''hh''"
    "to_lower (trim (get_attribute_value (definition_node ''B'') ''name'')) = ''b''"
    by code_simp+
  have top: "map_count (gates ?s) ''top''"
    unfolding before_validation_def by code_simp
  have a: "\<not> map_count (gates ?s) ''a''" "\<not> map_count (tbd_gates ?s) ''a''"
    "map_count (primary_events ?s) ''a''"
    unfolding before_validation_def by code_simp+
  have hh: "\<not> map_count (gates ?s) ''hh''" "\<not> map_count (tbd_gates ?s) ''hh''"
    "\<not> map_count (primary_events ?s) ''hh''" "map_count (tbd_house_events ?s) ''hh''"
    unfolding before_validation_def by code_simp+
  have b: "\<not> map_count (gates ?s) ''b''" "\<not> map_count (tbd_gates ?s) ''b''"
    "\<not> map_count (primary_events ?s) ''b''" "map_count (tbd_basic_events ?s) ''b''"
    unfolding before_validation_def by code_simp+
  note T = definition_of_bound_id_fails [of ?s "definition_node ''TOP''" example_cast "''ft''",
      unfolded n]
  note A = definition_of_bound_id_fails [of ?s "definition_node ''A''" example_cast "''ft''",
      unfolded n]
  note H = definition_of_bound_id_fails [of ?s "definition_node ''Hh''" example_cast "''ft''",
      unfolded n]
  note B = definition_of_bound_id_fails [of ?s "definition_node ''B''" example_cast "''ft''",
      unfolded n]
  from T [THEN conjunct1] top have t1:
    "(\<exists>e. DefineBasicEvent example_cast (definition_node ''TOP'') ?s = (Inl e, ?s) \<and> IdentifierConflict e)
     \<and> (\<exists>e. DefineHouseEvent (definition_node ''TOP'') ?s = (Inl e, ?s) \<and> IdentifierConflict e)"
    by (rule_tac mp) (assumption, rule disjI1)
  from T [THEN conjunct2, THEN conjunct2, THEN conjunct2, THEN conjunct1] top have t2:
    "\<exists>e. DefineGate example_cast (definition_node ''TOP'') ''ft'' ?s = (Inl e, ?s) \<and> DuplicateDefinition e"
    by (rule mp)
  from A [THEN conjunct2, THEN conjunct1] a have a1:
    "(\<exists>e. DefineBasicEvent example_cast (definition_node ''A'') ?s = (Inl e, ?s) \<and> DuplicateDefinition e)
     \<and> (\<exists>e. DefineHouseEvent (definition_node ''A'') ?s = (Inl e, ?s) \<and> DuplicateDefinition e)"
    by (rule_tac mp) (assumption, intro conjI)
  from A [THEN conjunct2, THEN conjunct2, THEN conjunct2, THEN conjunct2] a have a2:
    "\<exists>e. DefineGate example_cast (definition_node ''A'') ''ft'' ?s = (Inl e, ?s) \<and> IdentifierConflict e"
    by (rule_tac mp) (assumption, intro conjI disjI1)
  from H [THEN conjunct2, THEN conjunct2, THEN conjunct1] hh have h1:
    "\<exists>e. DefineBasicEvent example_cast (definition_node ''Hh'') ?s = (Inl e, ?s) \<and> IdentifierConflict e"
    by (rule_tac mp [OF conjunct1 [OF mp]]) (assumption, intro conjI)
  from B [THEN conjunct2, THEN conjunct2, THEN conjunct1] b have b1:
    "\<exists>e. DefineHouseEvent (definition_node ''B'') ?s = (Inl e, ?s) \<and> IdentifierConflict e"
    by (rule_tac mp [OF conjunct2 [OF mp]]) (assumption, intro conjI)
  from top t1 t2 a(3) a1 a2 hh(4) h1 b(4) b1 show ?thesis
    by (intro conjI) (erule conjunct1 conjunct2 | assumption)+
qed

end
